theory Spec2Isabelle
  imports Complex_Main "HOL-Library.AList"
begin

section \<open>Python values, exceptions and messages\<close>

text \<open>
  The handlers of \<^verbatim>\<open>skyportal/handlers/api/tns.py\<close> work on decoded JSON: request
  bodies, the credential blob of a robot and the replies of TNS.  A decoded JSON value is
  one of Python's \<^verbatim>\<open>None\<close>, \<^verbatim>\<open>bool\<close>, \<^verbatim>\<open>int\<close>, \<^verbatim>\<open>float\<close>, \<^verbatim>\<open>str\<close>, \<^verbatim>\<open>list\<close>
  and \<^verbatim>\<open>dict\<close>; a dict keeps its insertion order and has one entry per key, so it is
  an association list.
\<close>

datatype jval =
    JNone
  | JBool bool
  | JInt int
  | JFloat real
  | JStr string
  | JList "jval list"
  | JDict "(string \<times> jval) list"

text \<open>
  The text of every message the module builds with an f-string, as a constructor that
  carries the interpolated values.  The same texts are the arguments of
  \<^verbatim>\<open>ValueError(...)\<close> and of \<^verbatim>\<open>self.error(...)\<close>.
\<close>

datatype msg =
    NoObjectWithID string  \<comment> \<open>\<^verbatim>\<open>No object available with ID {obj_id}\<close>\<close>
  | NoTNSRobotWithID jval  \<comment> \<open>\<^verbatim>\<open>No TNSRobot available with ID {tnsrobot_id}\<close>\<close>
  | NoTNSRobotID jval  \<comment> \<open>\<^verbatim>\<open>No TNS robot with ID {tnsrobot_id}\<close>\<close>
  | MissingTNSInformation  \<comment> \<open>\<^verbatim>\<open>Missing TNS information.\<close>\<close>
  | MissingTNSAPIKey  \<comment> \<open>\<^verbatim>\<open>Missing TNS API key.\<close>\<close>
  | NotYetPostedToTNS string  \<comment> \<open>\<^verbatim>\<open>{obj_id} not yet posted to TNS.\<close>\<close>
  | RateExceeded  \<comment> \<open>\<^verbatim>\<open>TNS request failed: request rate exceeded.\<close>\<close>
  | NoObjectsPostedSince string  \<comment> \<open>\<^verbatim>\<open>No objects posted to TNS since {start_date}.\<close>\<close>
  | GroupIdsRequired  \<comment> \<open>\<^verbatim>\<open>group_ids is required\<close>\<close>
  | GroupIdsTypeNotUnderstood  \<comment> \<open>\<^verbatim>\<open>group_ids type not understood\<close>\<close>
  | TnsrobotIDRequired  \<comment> \<open>\<^verbatim>\<open>tnsrobotID is required\<close>\<close>
  | ReportersRequired  \<comment> \<open>\<^verbatim>\<open>reporters is required and must be a non-empty string\<close>\<close>
  | ArchivalCommentRequired
  | NoSpectrumWithID string  \<comment> \<open>\<^verbatim>\<open>No spectrum with ID {spectrum_id}\<close>\<close>
  | TNSNameMissing  \<comment> \<open>\<^verbatim>\<open>TNS name missing... please first post to TNS.\<close>\<close>
  | ResponseContent string  \<comment> \<open>\<^verbatim>\<open>{r.content}\<close>\<close>
  | BotIDMustBeInteger
  | BotNameMustBeNonEmpty
  | SourceGroupIDMustBeInteger
  | AutoReportGroupIDsMustBeList
  | AutoReportGroupIDsMustBeIntegers
  | AutoReportersMustBeNonEmpty
  | InvalidLiteralForInt string  \<comment> \<open>raised by \<^verbatim>\<open>int(s)\<close>\<close>
  | IsNotInList jval  \<comment> \<open>raised by \<^verbatim>\<open>list.index(x)\<close>\<close>

datatype exn =
    ValueError msg
  | KeyError string
  | TypeError
  | AttributeError
  | UnboundLocalError string
  | IndexError
  | ExternalError string  \<comment> \<open>raised by a collaborator or by the network layer\<close>

subsection \<open>The operations of Python the module applies to decoded values\<close>

text \<open>Truth value of a decoded value, as \<^verbatim>\<open>if x:\<close> and \<^verbatim>\<open>not x\<close> test it.\<close>

fun truthy :: "jval \<Rightarrow> bool" where
  "truthy JNone = False"
| "truthy (JBool b) = b"
| "truthy (JInt n) = (n \<noteq> 0)"
| "truthy (JFloat x) = (x \<noteq> 0)"
| "truthy (JStr s) = (s \<noteq> [])"
| "truthy (JList xs) = (xs \<noteq> [])"
| "truthy (JDict kvs) = (kvs \<noteq> [])"

fun starts_with :: "string \<Rightarrow> string \<Rightarrow> bool" where
  "starts_with [] ys = True"
| "starts_with (x # xs) [] = False"
| "starts_with (x # xs) (y # ys) = (x = y \<and> starts_with xs ys)"

fun substring_of :: "string \<Rightarrow> string \<Rightarrow> bool" where
  "substring_of xs [] = (xs = [])"
| "substring_of xs (y # ys) = (starts_with xs (y # ys) \<or> substring_of xs ys)"

text \<open>
  \<^verbatim>\<open>key in x\<close>: key membership on a dict, substring test on a str, element membership
  on a list, \<^verbatim>\<open>TypeError\<close> on a value that is not a container.
\<close>

fun py_in :: "string \<Rightarrow> jval \<Rightarrow> exn + bool" where
  "py_in k (JDict kvs) = Inr (map_of kvs k \<noteq> None)"
| "py_in k (JStr s) = Inr (substring_of k s)"
| "py_in k (JList xs) = Inr (List.member xs (JStr k))"
| "py_in k JNone = Inl TypeError"
| "py_in k (JBool b) = Inl TypeError"
| "py_in k (JInt n) = Inl TypeError"
| "py_in k (JFloat x) = Inl TypeError"

text \<open>\<^verbatim>\<open>x[key]\<close> with a string key: \<^verbatim>\<open>KeyError\<close> on a dict without the key.\<close>

fun py_getitem :: "jval \<Rightarrow> string \<Rightarrow> exn + jval" where
  "py_getitem (JDict kvs) k = (case map_of kvs k of None \<Rightarrow> Inl (KeyError k) | Some v \<Rightarrow> Inr v)"
| "py_getitem JNone k = Inl TypeError"
| "py_getitem (JBool b) k = Inl TypeError"
| "py_getitem (JInt n) k = Inl TypeError"
| "py_getitem (JFloat x) k = Inl TypeError"
| "py_getitem (JStr s) k = Inl TypeError"
| "py_getitem (JList xs) k = Inl TypeError"

text \<open>\<^verbatim>\<open>x.get(key, default)\<close>: only a dict has the method.\<close>

fun py_get :: "jval \<Rightarrow> string \<Rightarrow> jval \<Rightarrow> exn + jval" where
  "py_get (JDict kvs) k d = Inr (case map_of kvs k of None \<Rightarrow> d | Some v \<Rightarrow> v)"
| "py_get JNone k d = Inl AttributeError"
| "py_get (JBool b) k d = Inl AttributeError"
| "py_get (JInt n) k d = Inl AttributeError"
| "py_get (JFloat x) k d = Inl AttributeError"
| "py_get (JStr s) k d = Inl AttributeError"
| "py_get (JList xs) k d = Inl AttributeError"

text \<open>\<^verbatim>\<open>for x in v\<close>: the elements of a list, the keys of a dict, the characters of a str.\<close>

fun py_iter :: "jval \<Rightarrow> exn + jval list" where
  "py_iter (JList xs) = Inr xs"
| "py_iter (JDict kvs) = Inr (map (\<lambda>kv. JStr (fst kv)) kvs)"
| "py_iter (JStr s) = Inr (map (\<lambda>c. JStr [c]) s)"
| "py_iter JNone = Inl TypeError"
| "py_iter (JBool b) = Inl TypeError"
| "py_iter (JInt n) = Inl TypeError"
| "py_iter (JFloat x) = Inl TypeError"

section \<open>Entities\<close>

text \<open>
  \<^verbatim>\<open>TNSRobot\<close> of \<^verbatim>\<open>skyportal/models/tns.py\<close>.  Python attributes are untyped, and
  \<^verbatim>\<open>TNSRobotHandler.put\<close> assigns request values to them with \<^verbatim>\<open>setattr\<close>, so every
  column holds a decoded value.  \<open>attrs\<close> holds the attributes that are not columns.
\<close>

record tnsrobot =
  robot_id :: jval
  group_id :: jval
  bot_name :: jval
  bot_id :: jval
  source_group_id :: jval
  altdata_raw :: jval  \<comment> \<open>the column \<^verbatim>\<open>_altdata\<close>\<close>
  auto_report_group_ids :: jval
  auto_reporters :: jval
  attrs :: "(string \<times> jval) list"

text \<open>
  The property \<^verbatim>\<open>TNSRobot.altdata\<close>: the empty dict when \<^verbatim>\<open>_altdata is None\<close>, else
  \<^verbatim>\<open>json.loads(self._altdata)\<close>.  \<^verbatim>\<open>json.loads\<close> takes text only and raises
  \<^verbatim>\<open>TypeError\<close> on any other value; what it decodes a text to is the parameter
  \<open>loads\<close> (the JSON decoder is not part of the repository).
\<close>

fun json_loads :: "(string \<Rightarrow> exn + jval) \<Rightarrow> jval \<Rightarrow> exn + jval" where
  "json_loads loads (JStr s) = loads s"
| "json_loads loads JNone = Inl TypeError"
| "json_loads loads (JBool b) = Inl TypeError"
| "json_loads loads (JInt n) = Inl TypeError"
| "json_loads loads (JFloat x) = Inl TypeError"
| "json_loads loads (JList xs) = Inl TypeError"
| "json_loads loads (JDict kvs) = Inl TypeError"

definition altdata :: "(string \<Rightarrow> exn + jval) \<Rightarrow> tnsrobot \<Rightarrow> exn + jval" where
  "altdata loads robot =
     (if altdata_raw robot = JNone then Inr (JDict []) else json_loads loads (altdata_raw robot))"

text \<open>The setter of the property: \<^verbatim>\<open>self._altdata = value\<close>.\<close>

definition set_altdata :: "jval \<Rightarrow> tnsrobot \<Rightarrow> tnsrobot" where
  "set_altdata v robot = robot\<lparr>altdata_raw := v\<rparr>"

text \<open>\<^verbatim>\<open>x[key] = v\<close> with a string key: only a dict takes it.\<close>

fun py_setitem :: "jval \<Rightarrow> string \<Rightarrow> jval \<Rightarrow> exn + jval" where
  "py_setitem (JDict kvs) k v = Inr (JDict (AList.update k v kvs))"
| "py_setitem JNone k v = Inl TypeError"
| "py_setitem (JBool b) k v = Inl TypeError"
| "py_setitem (JInt n) k v = Inl TypeError"
| "py_setitem (JFloat x) k v = Inl TypeError"
| "py_setitem (JStr s) k v = Inl TypeError"
| "py_setitem (JList xs) k v = Inl TypeError"

record user =
  user_ident :: int
  accessible_groups :: "int list"

record obj =
  obj_ident :: string
  ra :: real
  dec :: real
  redshift :: "real option"
  internal_key :: string

text \<open>
  What \<^verbatim>\<open>requests.post\<close> returns: the status code, what \<^verbatim>\<open>r.json()\<close> gives (it
  raises on a body that is not JSON) and \<^verbatim>\<open>r.content\<close>.
\<close>

record response =
  status_code :: int
  body_json :: "exn + jval"
  content :: string

section \<open>Sessions, effects and the exception-and-state monad\<close>

text \<open>
  A database session holds the changes made since its last commit.  \<^verbatim>\<open>commit\<close> makes
  them durable, \<^verbatim>\<open>close\<close> drops them (it ends the transaction in progress).  Queries,
  \<^verbatim>\<open>commit\<close> and \<^verbatim>\<open>close\<close> themselves are taken not to raise.
\<close>

datatype change =
    SourcePosted string jval  \<comment> \<open>\<^verbatim>\<open>post_source(source, user_id, session)\<close>\<close>
  | TnsNameSet string string  \<comment> \<open>\<^verbatim>\<open>obj.tns_name = tns_name\<close>\<close>
  | TnsInfoSet string jval  \<comment> \<open>\<^verbatim>\<open>obj.tns_info = source_data\<close>\<close>
  | SpectrumPosted jval

record session =
  pending :: "change list"
  committed :: "change list"

definition new_session :: session where
  "new_session = \<lparr>pending = [], committed = []\<rparr>"

datatype logmsg =
    RateLimited jval
  | CannotReadPhotometry jval exn
  | FailedPhotometry nat nat "exn set"
  | CannotReadSpectrum jval exn
  | SuccessfullyRetrieved string string
  | FailedToRetrieve string string
  | UnableToRetrieve string exn
  | PostingAsSource jval
  | UnableToRetrieveSince string exn

text \<open>The requests sent to TNS, with the fields the module puts into them.\<close>

datatype request =
    ResolveName jval  \<comment> \<open>\<^verbatim>\<open>get_IAUname\<close>, with the API key\<close>
  | SearchRecent jval string  \<comment> \<open>\<^verbatim>\<open>get_recent_TNS\<close>, with the API key and the start date\<close>
  | ObjectFetch jval string bool bool  \<comment> \<open>API key, objname, photometry, spectra\<close>
  | FileUpload jval string  \<comment> \<open>API key, file name\<close>
  | BulkReport jval jval  \<comment> \<open>API key, the classification report\<close>

datatype task =
    BulkRetrievalTask string jval int jval jval jval
  | RetrievalTask string jval int jval jval
  | PostTask string jval int jval jval jval

datatype event =
    Log logmsg
  | Sleep nat  \<comment> \<open>\<^verbatim>\<open>time.sleep(seconds)\<close>\<close>
  | TNSCall request
  | SessionCommit
  | SessionClose
  | SessionRemove  \<comment> \<open>\<^verbatim>\<open>Session.remove()\<close>\<close>
  | FlowPush string string  \<comment> \<open>\<^verbatim>\<open>flow.push('*', action, payload={'obj_key': key})\<close>\<close>
  | HandlerPush string jval  \<comment> \<open>\<^verbatim>\<open>self.push(action, payload={"group_id": id})\<close>\<close>
  | PhotometryAdded string int "int list" jval  \<comment> \<open>\<^verbatim>\<open>add_external_photometry(data_out, user)\<close>\<close>
  | RunInExecutor task

record st =
  trace :: "event list"
  sess :: session

type_synonym 'a prog = "st \<Rightarrow> (exn + 'a) \<times> st"

definition ret :: "'a \<Rightarrow> 'a prog" where
  "ret x s = (Inr x, s)"

definition raise :: "exn \<Rightarrow> 'a prog" where
  "raise e s = (Inl e, s)"

definition lift :: "exn + 'a \<Rightarrow> 'a prog" where
  "lift r s = (r, s)"

definition bnd :: "'a prog \<Rightarrow> ('a \<Rightarrow> 'b prog) \<Rightarrow> 'b prog" where
  "bnd m f s = (case m s of (Inl e, s') \<Rightarrow> (Inl e, s') | (Inr x, s') \<Rightarrow> f x s')"

definition record_event :: "event \<Rightarrow> st \<Rightarrow> st" where
  "record_event e s = s\<lparr>trace := trace s @ [e]\<rparr>"

definition emit :: "event \<Rightarrow> unit prog" where
  "emit e s = (Inr (), record_event e s)"

definition add_change :: "change \<Rightarrow> unit prog" where
  "add_change c s = (Inr (), s\<lparr>sess := (sess s)\<lparr>pending := pending (sess s) @ [c]\<rparr>\<rparr>)"

definition commit_session :: "st \<Rightarrow> st" where
  "commit_session s =
     record_event SessionCommit
       (s\<lparr>sess := \<lparr>pending = [], committed = committed (sess s) @ pending (sess s)\<rparr>\<rparr>)"

definition close_session :: "st \<Rightarrow> st" where
  "close_session s = record_event SessionClose (s\<lparr>sess := (sess s)\<lparr>pending := []\<rparr>\<rparr>)"

definition remove_session :: "st \<Rightarrow> st" where
  "remove_session s = record_event SessionRemove s"

definition log_line :: "logmsg \<Rightarrow> unit prog" where
  "log_line m = emit (Log m)"

section \<open>Single-object retrieval: \<^verbatim>\<open>tns_retrieval\<close>\<close>

text \<open>
  What the world outside the function answers: the database queries, the JSON decoder,
  the TNS name lookup \<^verbatim>\<open>get_IAUname\<close>, the successive POSTs to the object endpoint
  (numbered from 0), the translators \<^verbatim>\<open>read_tns_photometry\<close>,
  \<^verbatim>\<open>read_tns_spectrum\<close> and the collaborators \<^verbatim>\<open>add_external_photometry\<close>,
  \<^verbatim>\<open>post_spectrum\<close>.  A call that can raise answers with a sum.
\<close>

record world =
  json_decoder :: "string \<Rightarrow> exn + jval"
  find_user :: "int \<Rightarrow> user option"
  find_obj :: "string \<Rightarrow> obj option"
  find_robot :: "int \<Rightarrow> tnsrobot option"
  get_IAUname :: "jval \<Rightarrow> real \<Rightarrow> real \<Rightarrow> exn + (string option \<times> string option)"
  post_object :: "nat \<Rightarrow> exn + response"
  read_tns_photometry :: "jval \<Rightarrow> exn + (jval \<times> int)"
  add_external_photometry :: "string \<Rightarrow> int \<Rightarrow> int list \<Rightarrow> jval \<Rightarrow> exn option"
  read_tns_spectrum :: "jval \<Rightarrow> exn + jval"
  post_spectrum :: "jval \<Rightarrow> exn option"

record retrieval_args =
  a_obj_id :: string
  a_tnsrobot_id :: int
  a_user_id :: int
  a_include_photometry :: bool
  a_include_spectra :: bool

definition count_limit :: nat where
  "count_limit = 5"

text \<open>
  The retry loop:
  \<^verbatim>\<open>while r.status_code == 429 and count < count_limit:\<close> log (which evaluates
  \<^verbatim>\<open>r.json()\<close>), sleep 30 seconds, POST again, \<^verbatim>\<open>count += 1\<close>.  It returns the last
  response and the number of retries.
\<close>

function retry_loop :: "world \<Rightarrow> request \<Rightarrow> nat \<Rightarrow> response \<Rightarrow> (response \<times> nat) prog" where
  "retry_loop w req count r s =
     (if status_code r = 429 \<and> count < count_limit then
        (case body_json r of
           Inl e \<Rightarrow> (Inl e, s)
         | Inr j \<Rightarrow>
             (case post_object w (Suc count) of
                Inl e \<Rightarrow>
                  (Inl e, record_event (TNSCall req)
                            (record_event (Sleep 30) (record_event (Log (RateLimited j)) s)))
              | Inr r' \<Rightarrow>
                  retry_loop w req (Suc count) r'
                    (record_event (TNSCall req)
                       (record_event (Sleep 30) (record_event (Log (RateLimited j)) s)))))
      else (Inr (r, count), s))"
  by pat_completeness auto
termination
  by (relation "measure (\<lambda>(w, req, count, r, s). count_limit - count)") auto

declare retry_loop.simps [simp del]

text \<open>\<^verbatim>\<open>[g.id for g in user.accessible_groups]\<close>; on no user it raises.\<close>

definition group_ids_of :: "user option \<Rightarrow> exn + int list" where
  "group_ids_of usr = (case usr of None \<Rightarrow> Inl AttributeError | Some u \<Rightarrow> Inr (accessible_groups u))"

text \<open>
  The photometry loop.  An exception of the translator or of the collaborator is caught
  per record: the record and the error are appended to the failures and logged.
\<close>

fun photometry_loop ::
  "world \<Rightarrow> string \<Rightarrow> int list \<Rightarrow> jval list \<Rightarrow> (jval \<times> exn) list \<Rightarrow> st \<Rightarrow> (jval \<times> exn) list \<times> st"
where
  "photometry_loop w oid gids [] failed s = (failed, s)"
| "photometry_loop w oid gids (phot # rest) failed s =
     (case read_tns_photometry w phot of
        Inl e \<Rightarrow>
          photometry_loop w oid gids rest (failed @ [(phot, e)])
            (record_event (Log (CannotReadPhotometry phot e)) s)
      | Inr (df, instrument_id) \<Rightarrow>
          (case add_external_photometry w oid instrument_id gids df of
             Some e \<Rightarrow>
               photometry_loop w oid gids rest (failed @ [(phot, e)])
                 (record_event (Log (CannotReadPhotometry phot e)) s)
           | None \<Rightarrow>
               photometry_loop w oid gids rest failed
                 (record_event (PhotometryAdded oid instrument_id gids df) s)))"

definition photometry_part :: "world \<Rightarrow> string \<Rightarrow> int list \<Rightarrow> jval \<Rightarrow> unit prog" where
  "photometry_part w oid gids source_data =
     bnd (lift (py_getitem source_data ''photometry'')) (\<lambda>photometry.
     bnd (lift (py_iter photometry)) (\<lambda>phots s.
       (case photometry_loop w oid gids phots [] s of
          (failed, s') \<Rightarrow>
            (if length failed > 0
             then log_line (FailedPhotometry (length failed) (length phots) (snd ` set failed)) s'
             else ret () s'))))"

text \<open>
  The spectra loop.  A translator failure is logged and the record skipped; an exception
  of \<^verbatim>\<open>post_spectrum\<close> is not caught here.
\<close>

fun spectra_loop :: "world \<Rightarrow> string \<Rightarrow> int list \<Rightarrow> jval list \<Rightarrow> unit prog" where
  "spectra_loop w oid gids [] s = (Inr (), s)"
| "spectra_loop w oid gids (spectrum # rest) s =
     (case read_tns_spectrum w spectrum of
        Inl e \<Rightarrow> spectra_loop w oid gids rest (record_event (Log (CannotReadSpectrum spectrum e)) s)
      | Inr d \<Rightarrow>
          (case py_setitem d ''obj_id'' (JStr oid) of
             Inl e \<Rightarrow> (Inl e, s)
           | Inr d1 \<Rightarrow>
               (case py_setitem d1 ''group_ids'' (JList (map JInt gids)) of
                  Inl e \<Rightarrow> (Inl e, s)
                | Inr d2 \<Rightarrow>
                    (case post_spectrum w d2 of
                       Some e \<Rightarrow> (Inl e, s)
                     | None \<Rightarrow>
                         spectra_loop w oid gids rest
                           (s\<lparr>sess := (sess s)\<lparr>pending := pending (sess s) @ [SpectrumPosted d2]\<rparr>\<rparr>)))))"

definition spectra_part :: "world \<Rightarrow> string \<Rightarrow> user option \<Rightarrow> jval \<Rightarrow> unit prog" where
  "spectra_part w oid usr source_data =
     bnd (lift (group_ids_of usr)) (\<lambda>gids.
     bnd (lift (py_getitem source_data ''spectra'')) (\<lambda>spectra.
     bnd (lift (py_iter spectra)) (\<lambda>specs.
       spectra_loop w oid gids specs)))"

text \<open>The branch \<^verbatim>\<open>if r.status_code == 200:\<close>.\<close>

definition process_reply ::
  "world \<Rightarrow> retrieval_args \<Rightarrow> user option \<Rightarrow> string \<Rightarrow> response \<Rightarrow> unit prog" where
  "process_reply w a usr tns_name r =
     bnd (lift (body_json r)) (\<lambda>j.
     bnd (lift (py_get j ''data'' (JDict []))) (\<lambda>d.
     bnd (lift (py_get d ''reply'' (JDict []))) (\<lambda>source_data.
     bnd (if truthy source_data then
            bnd (add_change (TnsInfoSet (a_obj_id a) source_data)) (\<lambda>_.
            bnd (lift (group_ids_of usr)) (\<lambda>gids.
            bnd (if a_include_photometry a then
                   bnd (lift (py_in ''photometry'' source_data)) (\<lambda>present.
                     if present then photometry_part w (a_obj_id a) gids source_data else ret ())
                 else ret ()) (\<lambda>_.
            (if a_include_spectra a then
               bnd (lift (py_in ''spectra'' source_data)) (\<lambda>present.
                 if present then spectra_part w (a_obj_id a) usr source_data else ret ())
             else ret ()))))
          else ret ()) (\<lambda>_.
     log_line (SuccessfullyRetrieved (a_obj_id a) tns_name)))))"

text \<open>
  The first POST to the object endpoint and the retry loop; then
  \<^verbatim>\<open>if count == count_limit: raise ValueError('TNS request failed: request rate exceeded.')\<close>.
\<close>

definition fetch_object :: "world \<Rightarrow> request \<Rightarrow> response prog" where
  "fetch_object w req =
     bnd (emit (TNSCall req)) (\<lambda>_.
     bnd (lift (post_object w 0)) (\<lambda>r0.
     bnd (retry_loop w req 0 r0) (\<lambda>(r, count).
       if count = count_limit then raise (ValueError RateExceeded) else ret r)))"

text \<open>The body of the \<^verbatim>\<open>try\<close> block.\<close>

definition tns_retrieval_try :: "world \<Rightarrow> retrieval_args \<Rightarrow> user option \<Rightarrow> unit prog" where
  "tns_retrieval_try w a usr =
     (case find_obj w (a_obj_id a) of
        None \<Rightarrow> raise (ValueError (NoObjectWithID (a_obj_id a)))
      | Some ob \<Rightarrow>
     (case find_robot w (a_tnsrobot_id a) of
        None \<Rightarrow> raise (ValueError (NoTNSRobotWithID (JInt (a_tnsrobot_id a))))
      | Some robot \<Rightarrow>
     bnd (lift (altdata (json_decoder w) robot)) (\<lambda>alt.
     if \<not> truthy alt then raise (ValueError MissingTNSInformation) else
     bnd (lift (py_in ''api_key'' alt)) (\<lambda>has_key.
     if \<not> has_key then raise (ValueError MissingTNSAPIKey) else
     bnd (lift (py_getitem alt ''api_key'')) (\<lambda>api_key.
     bnd (emit (TNSCall (ResolveName api_key))) (\<lambda>_.
     bnd (lift (get_IAUname w api_key (ra ob) (dec ob))) (\<lambda>(prefix, name).
     (case name of
        None \<Rightarrow> raise (ValueError (NotYetPostedToTNS (a_obj_id a)))
      | Some tns_name \<Rightarrow>
     bnd (add_change (TnsNameSet (a_obj_id a) tns_name)) (\<lambda>_.
     bnd (fetch_object w
            (ObjectFetch api_key tns_name (a_include_photometry a) (a_include_spectra a))) (\<lambda>r.
     bnd (if status_code r = 200 then process_reply w a usr tns_name r
          else log_line (FailedToRetrieve (a_obj_id a) (content r))) (\<lambda>_.
     bnd (\<lambda>s. (Inr (), commit_session s)) (\<lambda>_.
     emit (FlowPush ''skyportal/REFRESH_SOURCE'' (internal_key ob))))))))))))))"

text \<open>
  The whole function.  With no \<open>parent_session\<close> it takes a session of its own.
  \<^verbatim>\<open>except Exception as e\<close> logs and swallows; the \<^verbatim>\<open>finally\<close> block is
  \<^verbatim>\<open>if parent_session is not None: session.close(); Session.remove()\<close>.
  The result is the final state: the trace and the session the function worked on.
\<close>

definition tns_retrieval :: "world \<Rightarrow> retrieval_args \<Rightarrow> session option \<Rightarrow> event list \<Rightarrow> st" where
  "tns_retrieval w a parent_session tr =
     (let session = (case parent_session of None \<Rightarrow> new_session | Some p \<Rightarrow> p);
          usr = find_user w (a_user_id a);
          s1 = (case tns_retrieval_try w a usr \<lparr>trace = tr, sess = session\<rparr> of
                  (Inl e, s) \<Rightarrow> record_event (Log (UnableToRetrieve (a_obj_id a) e)) s
                | (Inr u, s) \<Rightarrow> s)
      in if parent_session \<noteq> None then remove_session (close_session s1) else s1)"

section \<open>Bulk retrieval: \<^verbatim>\<open>tns_bulk_retrieval\<close>\<close>

text \<open>
  Modelled from the spec: \<^verbatim>\<open>get_recent_TNS\<close> and \<^verbatim>\<open>post_source\<close> are imported from
  modules that are not among the source files.  The spec gives the search as returning a
  list of \<open>{id, ...}\<close> and \<^verbatim>\<open>post_source\<close> as creating the source in the session it is
  handed: here a found source is a record with its id and its other fields, and a
  successful \<^verbatim>\<open>post_source\<close> adds the change \<open>SourcePosted\<close> to the session.
\<close>

record tns_source =
  source_id :: string
  source_fields :: "(string \<times> jval) list"

text \<open>
  The world of a bulk run: its own queries, the search, and for the \<open>k\<close>-th source of
  the loop (from 0) the local lookup of the object, the outcome of \<^verbatim>\<open>post_source\<close> and
  what the inner \<^verbatim>\<open>tns_retrieval\<close> is answered.
\<close>

record bulk_world =
  b_json_decoder :: "string \<Rightarrow> exn + jval"
  b_find_user :: "int \<Rightarrow> user option"
  b_find_robot :: "int \<Rightarrow> tnsrobot option"
  get_recent_TNS :: "jval \<Rightarrow> string \<Rightarrow> exn + tns_source list"
  local_obj :: "nat \<Rightarrow> string \<Rightarrow> obj option"
  post_source :: "nat \<Rightarrow> tns_source \<Rightarrow> jval \<Rightarrow> exn option"
  retrieval_world :: "nat \<Rightarrow> world"

record bulk_args =
  b_start_date :: string
  b_tnsrobot_id :: int
  b_user_id :: int
  b_group_ids :: "jval option"
  b_include_photometry :: bool
  b_include_spectra :: bool

definition inner_args :: "bulk_args \<Rightarrow> tns_source \<Rightarrow> retrieval_args" where
  "inner_args a source =
     \<lparr>a_obj_id = source_id source, a_tnsrobot_id = b_tnsrobot_id a, a_user_id = b_user_id a,
      a_include_photometry = b_include_photometry a, a_include_spectra = b_include_spectra a\<rparr>"

text \<open>
  One pass of \<^verbatim>\<open>for source in tns_sources\<close>: post the source when the object is not
  known locally, then call \<^verbatim>\<open>tns_retrieval\<close> with \<^verbatim>\<open>parent_session=session\<close>.  The
  inner call works on the shared session, so the loop goes on with the session the call
  leaves.
\<close>

definition post_if_missing :: "bulk_world \<Rightarrow> jval \<Rightarrow> nat \<Rightarrow> tns_source \<Rightarrow> unit prog" where
  "post_if_missing bw gids k source =
     (case local_obj bw k (source_id source) of
        Some ob \<Rightarrow> ret ()
      | None \<Rightarrow>
          bnd (log_line (PostingAsSource (JStr (source_id source)))) (\<lambda>_.
          (case post_source bw k source gids of
             Some e \<Rightarrow> raise e
           | None \<Rightarrow> add_change (SourcePosted (source_id source) gids))))"

fun bulk_loop :: "bulk_world \<Rightarrow> bulk_args \<Rightarrow> jval \<Rightarrow> nat \<Rightarrow> tns_source list \<Rightarrow> unit prog" where
  "bulk_loop bw a gids k [] s = (Inr (), s)"
| "bulk_loop bw a gids k (source # rest) s =
     (case post_if_missing bw gids k source s of
        (Inl e, s1) \<Rightarrow> (Inl e, s1)
      | (Inr u, s1) \<Rightarrow>
          bulk_loop bw a gids (Suc k) rest
            (tns_retrieval (retrieval_world bw k) (inner_args a source) (Some (sess s1)) (trace s1)))"

text \<open>The body of the \<^verbatim>\<open>try\<close> block, ending with the \<^verbatim>\<open>session.commit()\<close> after the loop.\<close>

definition tns_bulk_retrieval_try :: "bulk_world \<Rightarrow> bulk_args \<Rightarrow> jval \<Rightarrow> unit prog" where
  "tns_bulk_retrieval_try bw a gids =
     (case b_find_robot bw (b_tnsrobot_id a) of
        None \<Rightarrow> raise (ValueError (NoTNSRobotWithID (JInt (b_tnsrobot_id a))))
      | Some robot \<Rightarrow>
     bnd (lift (altdata (b_json_decoder bw) robot)) (\<lambda>alt.
     if \<not> truthy alt then raise (ValueError MissingTNSInformation) else
     bnd (lift (py_in ''api_key'' alt)) (\<lambda>has_key.
     if \<not> has_key then raise (ValueError MissingTNSAPIKey) else
     bnd (lift (py_getitem alt ''api_key'')) (\<lambda>api_key.
     bnd (emit (TNSCall (SearchRecent api_key (b_start_date a)))) (\<lambda>_.
     bnd (lift (get_recent_TNS bw api_key (b_start_date a))) (\<lambda>tns_sources.
     if length tns_sources = 0 then raise (ValueError (NoObjectsPostedSince (b_start_date a))) else
     bnd (bulk_loop bw a gids 0 tns_sources) (\<lambda>_ s.
       (Inr (), commit_session s))))))))"

text \<open>
  The whole function.  The user query and the default of \<open>group_ids\<close> stand before the
  \<^verbatim>\<open>try\<close>: an exception there leaves the function (first component) and skips the
  \<^verbatim>\<open>finally\<close> block.  Otherwise \<^verbatim>\<open>except Exception\<close> logs and swallows, and
  \<^verbatim>\<open>finally\<close> closes the session and removes it from the registry.
\<close>

definition default_group_ids :: "jval option \<Rightarrow> user option \<Rightarrow> exn + jval" where
  "default_group_ids group_ids usr =
     (case group_ids of
        Some g \<Rightarrow> Inr g
      | None \<Rightarrow> (case group_ids_of usr of Inl e \<Rightarrow> Inl e | Inr gs \<Rightarrow> Inr (JList (map JInt gs))))"

definition tns_bulk_retrieval :: "bulk_world \<Rightarrow> bulk_args \<Rightarrow> event list \<Rightarrow> exn option \<times> st" where
  "tns_bulk_retrieval bw a tr =
     (case default_group_ids (b_group_ids a) (b_find_user bw (b_user_id a)) of
        Inl e \<Rightarrow> (Some e, \<lparr>trace = tr, sess = new_session\<rparr>)
      | Inr gids \<Rightarrow>
          (case tns_bulk_retrieval_try bw a gids \<lparr>trace = tr, sess = new_session\<rparr> of
             (Inl e, s) \<Rightarrow>
               (None, remove_session (close_session
                        (record_event (Log (UnableToRetrieveSince (b_start_date a) e)) s)))
           | (Inr u, s) \<Rightarrow> (None, remove_session (close_session s))))"

section \<open>Request handlers\<close>

subsection \<open>\<^verbatim>\<open>int(x)\<close> and \<^verbatim>\<open>str.split(',')\<close>\<close>

text \<open>
  \<^verbatim>\<open>int(s)\<close> on text: surrounding whitespace is dropped, then an optional sign and
  decimal digits, where single underscores may stand between digits.  Anything else
  raises \<^verbatim>\<open>ValueError\<close>.  Characters are bytes here, so the whitespace and digits are the
  ASCII ones.
\<close>

definition is_space :: "char \<Rightarrow> bool" where
  "is_space c = (of_char c \<in> set [9, 10, 11, 12, 13, 28, 29, 30, 31, 32 :: nat])"

definition is_digit :: "char \<Rightarrow> bool" where
  "is_digit c = (48 \<le> (of_char c :: nat) \<and> (of_char c :: nat) \<le> 57)"

definition digit_val :: "char \<Rightarrow> nat" where
  "digit_val c = of_char c - 48"

definition strip :: "string \<Rightarrow> string" where
  "strip s = rev (dropWhile is_space (rev (dropWhile is_space s)))"

fun parse_digits :: "nat \<Rightarrow> string \<Rightarrow> nat option" where
  "parse_digits acc [] = Some acc"
| "parse_digits acc [c] = (if is_digit c then Some (acc * 10 + digit_val c) else None)"
| "parse_digits acc (c # d # ds) =
     (if is_digit c then parse_digits (acc * 10 + digit_val c) (d # ds)
      else if c = CHR ''_'' \<and> is_digit d then parse_digits acc (d # ds)
      else None)"

definition parse_nat :: "string \<Rightarrow> nat option" where
  "parse_nat s =
     (case s of [] \<Rightarrow> None
      | c # cs \<Rightarrow> if is_digit c then parse_digits (digit_val c) cs else None)"

definition parse_int :: "string \<Rightarrow> int option" where
  "parse_int s =
     (case s of [] \<Rightarrow> None
      | c # cs \<Rightarrow>
          if c = CHR ''-'' then map_option (\<lambda>n. - int n) (parse_nat cs)
          else if c = CHR ''+'' then map_option int (parse_nat cs)
          else map_option int (parse_nat (c # cs)))"

definition py_int_str :: "string \<Rightarrow> exn + int" where
  "py_int_str s =
     (case parse_int (strip s) of
        None \<Rightarrow> Inl (ValueError (InvalidLiteralForInt s))
      | Some n \<Rightarrow> Inr n)"

text \<open>
  \<^verbatim>\<open>int(x)\<close> on a decoded value: an int is kept, a bool counts 0 or 1, a float is cut
  towards zero, text is parsed, and \<^verbatim>\<open>None\<close>, a list or a dict raise \<^verbatim>\<open>TypeError\<close>.
\<close>

fun py_int :: "jval \<Rightarrow> exn + int" where
  "py_int (JInt n) = Inr n"
| "py_int (JBool b) = Inr (if b then 1 else 0)"
| "py_int (JFloat x) = Inr (if x < 0 then \<lceil>x\<rceil> else \<lfloor>x\<rfloor>)"
| "py_int (JStr s) = py_int_str s"
| "py_int JNone = Inl TypeError"
| "py_int (JList xs) = Inl TypeError"
| "py_int (JDict kvs) = Inl TypeError"

text \<open>\<^verbatim>\<open>s.split(',')\<close>: the pieces between the commas, one piece for a text without comma.\<close>

fun split_on :: "char \<Rightarrow> string \<Rightarrow> string list" where
  "split_on c [] = [[]]"
| "split_on c (x # xs) =
     (if x = c then [] # split_on c xs
      else (case split_on c xs of [] \<Rightarrow> [[x]] | y # ys \<Rightarrow> (x # y) # ys))"

text \<open>\<^verbatim>\<open>[int(x) for x in pieces]\<close>: the first piece that does not parse raises.\<close>

fun int_each :: "string list \<Rightarrow> exn + int list" where
  "int_each [] = Inr []"
| "int_each (x # xs) =
     (case py_int_str x of
        Inl e \<Rightarrow> Inl e
      | Inr n \<Rightarrow> (case int_each xs of Inl e \<Rightarrow> Inl e | Inr ns \<Rightarrow> Inr (n # ns)))"

text \<open>\<^verbatim>\<open>data.get(key, default)\<close> on the decoded request body, a dict.\<close>

definition data_get :: "(string \<times> jval) list \<Rightarrow> string \<Rightarrow> jval \<Rightarrow> jval" where
  "data_get data k d = (case map_of data k of None \<Rightarrow> d | Some v \<Rightarrow> v)"

subsection \<open>Replies and the world of a handler\<close>

text \<open>
  A handler method ends with \<^verbatim>\<open>return self.success(data=...)\<close>, with
  \<^verbatim>\<open>return self.error(message)\<close>, or with an exception that no \<^verbatim>\<open>except\<close> of the method
  catches and that leaves the method.
\<close>

datatype reply =
    Success jval
  | Error msg
  | Uncaught exn

record spectrum =
  spectrum_obj :: obj
  instrument_name :: string
  instrument_tns_id :: jval
  spectrum_altdata :: jval  \<comment> \<open>the header metadata, \<^verbatim>\<open>None\<close> when there is none\<close>
  wavelengths :: "real list"
  fluxes :: "real list"
  errors :: "real list option"
  observed_at :: jval
  observers :: jval
  reducers :: jval

text \<open>
  What a handler is answered: the queries of its session, the id of the requesting user,
  the date parser (\<^verbatim>\<open>arrow\<close>, \<^verbatim>\<open>astropy\<close>) applied to \<^verbatim>\<open>startDate\<close>, the name lookup
  as the spectrum handler calls it, and the responses of the upload and report endpoints.
\<close>

record handler_world =
  h_json_decoder :: "string \<Rightarrow> exn + jval"
  h_find_robot :: "jval \<Rightarrow> tnsrobot option"
  h_find_obj :: "string \<Rightarrow> obj option"
  h_find_spectrum :: "string \<Rightarrow> spectrum option"
  h_user_id :: int
  h_start_date :: "jval \<Rightarrow> exn + string"
  h_resolve_name :: "string \<Rightarrow> jval \<Rightarrow> exn + (string option \<times> string option)"
  h_upload :: "exn + response"
  h_report :: "exn + response"

type_synonym 'a hprog = "event list \<Rightarrow> (reply + 'a) \<times> event list"

definition hret :: "'a \<Rightarrow> 'a hprog" where
  "hret x tr = (Inr x, tr)"

definition reply_with :: "reply \<Rightarrow> 'a hprog" where
  "reply_with r tr = (Inl r, tr)"

definition hbnd :: "'a hprog \<Rightarrow> ('a \<Rightarrow> 'b hprog) \<Rightarrow> 'b hprog" where
  "hbnd m f tr = (case m tr of (Inl r, tr') \<Rightarrow> (Inl r, tr') | (Inr x, tr') \<Rightarrow> f x tr')"

text \<open>A Python operation inside a handler, outside any \<^verbatim>\<open>try\<close>: its exception leaves the method.\<close>

definition hlift :: "exn + 'a \<Rightarrow> 'a hprog" where
  "hlift r tr = (case r of Inl e \<Rightarrow> (Inl (Uncaught e), tr) | Inr x \<Rightarrow> (Inr x, tr))"

definition hemit :: "event \<Rightarrow> unit hprog" where
  "hemit e tr = (Inr (), tr @ [e])"

definition run_handler :: "reply hprog \<Rightarrow> reply \<times> event list" where
  "run_handler m = (case m [] of (Inl r, tr) \<Rightarrow> (r, tr) | (Inr r, tr) \<Rightarrow> (r, tr))"

text \<open>
  The credential checks the three launching handlers share:
  \<^verbatim>\<open>altdata = tnsrobot.altdata\<close>, \<^verbatim>\<open>if not altdata: return self.error(...)\<close>,
  \<^verbatim>\<open>if 'api_key' not in altdata: return self.error(...)\<close>.
\<close>

definition check_credentials :: "handler_world \<Rightarrow> tnsrobot \<Rightarrow> jval hprog" where
  "check_credentials hw robot =
     hbnd (hlift (altdata (h_json_decoder hw) robot)) (\<lambda>alt.
     if \<not> truthy alt then reply_with (Error MissingTNSInformation) else
     hbnd (hlift (py_in ''api_key'' alt)) (\<lambda>has_key.
     if \<not> has_key then reply_with (Error MissingTNSAPIKey) else hret alt))"

subsection \<open>\<^verbatim>\<open>BulkTNSHandler.post\<close>\<close>

text \<open>
  The reading of \<^verbatim>\<open>groupIds\<close>: missing or \<^verbatim>\<open>None\<close> is refused, text is split at the
  commas and every piece converted with \<^verbatim>\<open>int\<close> (outside any \<^verbatim>\<open>try\<close>), a list is
  taken as it is, any other value is refused.
\<close>

definition read_group_ids :: "(string \<times> jval) list \<Rightarrow> jval hprog" where
  "read_group_ids data =
     (case data_get data ''groupIds'' JNone of
        JNone \<Rightarrow> reply_with (Error GroupIdsRequired)
      | JStr s \<Rightarrow> hbnd (hlift (int_each (split_on CHR '','' s))) (\<lambda>ns. hret (JList (map JInt ns)))
      | JList xs \<Rightarrow> hret (JList xs)
      | JBool b \<Rightarrow> reply_with (Error GroupIdsTypeNotUnderstood)
      | JInt n \<Rightarrow> reply_with (Error GroupIdsTypeNotUnderstood)
      | JFloat x \<Rightarrow> reply_with (Error GroupIdsTypeNotUnderstood)
      | JDict kvs \<Rightarrow> reply_with (Error GroupIdsTypeNotUnderstood))"

definition bulk_tns_handler_post :: "handler_world \<Rightarrow> (string \<times> jval) list \<Rightarrow> reply \<times> event list" where
  "bulk_tns_handler_post hw data =
     run_handler (
       hbnd (read_group_ids data) (\<lambda>group_ids.
       hbnd (hlift (h_start_date hw (data_get data ''startDate'' JNone))) (\<lambda>start_date.
       (if data_get data ''tnsrobotID'' JNone = JNone then reply_with (Error TnsrobotIDRequired) else
       (case h_find_robot hw (data_get data ''tnsrobotID'' JNone) of
          None \<Rightarrow> reply_with (Error (NoTNSRobotWithID (data_get data ''tnsrobotID'' JNone)))
        | Some robot \<Rightarrow>
       hbnd (check_credentials hw robot) (\<lambda>alt.
       hbnd (hemit (RunInExecutor (BulkRetrievalTask start_date (robot_id robot) (h_user_id hw)
                group_ids (data_get data ''includePhotometry'' (JBool False))
                (data_get data ''includeSpectra'' (JBool False))))) (\<lambda>_.
       hret (Success JNone))))))))"

subsection \<open>\<^verbatim>\<open>ObjTNSHandler.get\<close> and \<^verbatim>\<open>ObjTNSHandler.post\<close>\<close>

definition obj_tns_handler_get ::
  "handler_world \<Rightarrow> string \<Rightarrow> (string \<times> jval) list \<Rightarrow> reply \<times> event list" where
  "obj_tns_handler_get hw oid query =
     run_handler (
       (if data_get query ''tnsrobotID'' JNone = JNone then reply_with (Error TnsrobotIDRequired) else
       (case h_find_obj hw oid of
          None \<Rightarrow> reply_with (Error (NoObjectWithID oid))
        | Some ob \<Rightarrow>
       (case h_find_robot hw (data_get query ''tnsrobotID'' JNone) of
          None \<Rightarrow> reply_with (Error (NoTNSRobotWithID (data_get query ''tnsrobotID'' JNone)))
        | Some robot \<Rightarrow>
       hbnd (check_credentials hw robot) (\<lambda>alt.
       hbnd (hemit (RunInExecutor (RetrievalTask (obj_ident ob) (robot_id robot) (h_user_id hw)
                (data_get query ''includePhotometry'' (JBool False))
                (data_get query ''includeSpectra'' (JBool False))))) (\<lambda>_.
       hret (Success JNone)))))))"

text \<open>\<^verbatim>\<open>len(x)\<close> on a decoded value.\<close>

fun py_len :: "jval \<Rightarrow> exn + nat" where
  "py_len (JStr s) = Inr (length s)"
| "py_len (JList xs) = Inr (length xs)"
| "py_len (JDict kvs) = Inr (length kvs)"
| "py_len JNone = Inl TypeError"
| "py_len (JBool b) = Inl TypeError"
| "py_len (JInt n) = Inl TypeError"
| "py_len (JFloat x) = Inl TypeError"

fun is_str :: "jval \<Rightarrow> bool" where
  "is_str (JStr s) = True"
| "is_str JNone = False"
| "is_str (JBool b) = False"
| "is_str (JInt n) = False"
| "is_str (JFloat x) = False"
| "is_str (JList xs) = False"
| "is_str (JDict kvs) = False"

definition obj_tns_handler_post ::
  "handler_world \<Rightarrow> string \<Rightarrow> (string \<times> jval) list \<Rightarrow> reply \<times> event list" where
  "obj_tns_handler_post hw oid data =
     run_handler (
       (if data_get data ''tnsrobotID'' JNone = JNone then reply_with (Error TnsrobotIDRequired) else
       if data_get data ''reporters'' (JStr []) = JStr [] \<or> \<not> is_str (data_get data ''reporters'' (JStr []))
       then reply_with (Error ReportersRequired) else
       (case h_find_obj hw oid of
          None \<Rightarrow> reply_with (Error (NoObjectWithID oid))
        | Some ob \<Rightarrow>
       (case h_find_robot hw (data_get data ''tnsrobotID'' JNone) of
          None \<Rightarrow> reply_with (Error (NoTNSRobotWithID (data_get data ''tnsrobotID'' JNone)))
        | Some robot \<Rightarrow>
       hbnd (if data_get data ''archival'' (JBool False) = JBool True then
               hbnd (hlift (py_len (data_get data ''archivalComment'' (JStr [])))) (\<lambda>n.
                 if n = 0 then reply_with (Error ArchivalCommentRequired) else hret ())
             else hret ()) (\<lambda>_.
       hbnd (check_credentials hw robot) (\<lambda>alt.
       hbnd (hemit (RunInExecutor (PostTask (obj_ident ob) (robot_id robot) (h_user_id hw)
                (data_get data ''reporters'' (JStr [])) (data_get data ''archival'' (JBool False))
                (data_get data ''archivalComment'' (JStr []))))) (\<lambda>_.
       hret (Success JNone))))))))"

subsection \<open>\<^verbatim>\<open>SpectrumTNSHandler.post\<close>\<close>

definition spectrum_types :: "string list" where
  "spectrum_types = [''object'', ''host'', ''sky'', ''arcs'', ''synthetic'']"

fun index_of :: "'a \<Rightarrow> 'a list \<Rightarrow> nat option" where
  "index_of x [] = None"
| "index_of x (y # ys) = (if x = y then Some 0 else map_option Suc (index_of x ys))"

text \<open>
  \<^verbatim>\<open>['object', 'host', 'sky', 'arcs', 'synthetic'].index(spectrum_type) + 1\<close>;
  \<^verbatim>\<open>list.index\<close> raises \<^verbatim>\<open>ValueError\<close> on a value that is not in the list.
\<close>

definition spectype_id :: "jval \<Rightarrow> exn + int" where
  "spectype_id spectrum_type =
     (case spectrum_type of
        JStr s \<Rightarrow>
          (case index_of s spectrum_types of
             None \<Rightarrow> Inl (ValueError (IsNotInList spectrum_type))
           | Some i \<Rightarrow> Inr (int i + 1))
      | JNone \<Rightarrow> Inl (ValueError (IsNotInList spectrum_type))
      | JBool b \<Rightarrow> Inl (ValueError (IsNotInList spectrum_type))
      | JInt n \<Rightarrow> Inl (ValueError (IsNotInList spectrum_type))
      | JFloat x \<Rightarrow> Inl (ValueError (IsNotInList spectrum_type))
      | JList xs \<Rightarrow> Inl (ValueError (IsNotInList spectrum_type))
      | JDict kvs \<Rightarrow> Inl (ValueError (IsNotInList spectrum_type)))"

text \<open>
  The rows written to the temporary file, \<^verbatim>\<open>for i in range(len(wav))\<close>: reading
  \<^verbatim>\<open>flux[i]\<close> or \<^verbatim>\<open>err[i]\<close> past the end raises \<^verbatim>\<open>IndexError\<close>.
\<close>

fun rows_with_errors :: "real list \<Rightarrow> real list \<Rightarrow> real list \<Rightarrow> exn + (real \<times> real \<times> real) list" where
  "rows_with_errors [] fl er = Inr []"
| "rows_with_errors (w # ws) [] er = Inl IndexError"
| "rows_with_errors (w # ws) (f # fs) [] = Inl IndexError"
| "rows_with_errors (w # ws) (f # fs) (e # es) =
     (case rows_with_errors ws fs es of Inl x \<Rightarrow> Inl x | Inr rs \<Rightarrow> Inr ((w, f, e) # rs))"

fun rows_without_errors :: "real list \<Rightarrow> real list \<Rightarrow> exn + (real \<times> real) list" where
  "rows_without_errors [] fl = Inr []"
| "rows_without_errors (w # ws) [] = Inl IndexError"
| "rows_without_errors (w # ws) (f # fs) =
     (case rows_without_errors ws fs of Inl x \<Rightarrow> Inl x | Inr rs \<Rightarrow> Inr ((w, f) # rs))"

definition write_rows :: "spectrum \<Rightarrow> exn + unit" where
  "write_rows sp =
     (case errors sp of
        Some er \<Rightarrow> (case rows_with_errors (wavelengths sp) (fluxes sp) er of
                      Inl x \<Rightarrow> Inl x | Inr rs \<Rightarrow> Inr ())
      | None \<Rightarrow> (case rows_without_errors (wavelengths sp) (fluxes sp) of
                   Inl x \<Rightarrow> Inl x | Inr rs \<Rightarrow> Inr ()))"

text \<open>
  The local variable \<^verbatim>\<open>redshift\<close> is assigned only under
  \<^verbatim>\<open>if spectrum.obj.redshift:\<close>; \<open>None\<close> here is the unbound variable.
\<close>

definition bind_redshift :: "obj \<Rightarrow> real option" where
  "bind_redshift ob = (case redshift ob of None \<Rightarrow> None | Some z \<Rightarrow> if z \<noteq> 0 then Some z else None)"

text \<open>
  \<^verbatim>\<open>if redshift is not None: classification_report['redshift'] = redshift\<close>: reading
  the unbound local raises \<^verbatim>\<open>UnboundLocalError\<close>.
\<close>

definition add_redshift :: "real option \<Rightarrow> (string \<times> jval) list \<Rightarrow> exn + (string \<times> jval) list" where
  "add_redshift local report =
     (case local of
        None \<Rightarrow> Inl (UnboundLocalError ''redshift'')
      | Some z \<Rightarrow> Inr (AList.update ''redshift'' (JFloat z) report))"

definition exposure_time_of :: "spectrum \<Rightarrow> exn + jval" where
  "exposure_time_of sp =
     (if spectrum_altdata sp \<noteq> JNone then py_getitem (spectrum_altdata sp) ''EXPTIME'' else Inr JNone)"

definition spectrumdict_of :: "spectrum \<Rightarrow> int \<Rightarrow> string \<Rightarrow> jval \<Rightarrow> jval \<Rightarrow> (string \<times> jval) list" where
  "spectrumdict_of sp stype filename spectrum_comment exposure_time =
     (let d = [(''instrumentid'', instrument_tns_id sp), (''observer'', observers sp),
               (''reducer'', reducers sp), (''spectypeid'', JInt stype),
               (''ascii_file'', JStr filename), (''fits_file'', JStr []),
               (''remarks'', spectrum_comment), (''spec_proprietary_period'', JFloat 0),
               (''obsdate'', observed_at sp)]
      in if exposure_time \<noteq> JNone then AList.update ''exptime'' exposure_time d else d)"

definition spectrum_tns_handler_post ::
  "handler_world \<Rightarrow> string \<Rightarrow> (string \<times> jval) list \<Rightarrow> reply \<times> event list" where
  "spectrum_tns_handler_post hw spectrum_id data =
     run_handler (
       (if data_get data ''tnsrobotID'' JNone = JNone then reply_with (Error TnsrobotIDRequired) else
       (case h_find_robot hw (data_get data ''tnsrobotID'' JNone) of
          None \<Rightarrow> reply_with (Error (NoTNSRobotWithID (data_get data ''tnsrobotID'' JNone)))
        | Some robot \<Rightarrow>
       hbnd (hlift (altdata (h_json_decoder hw) robot)) (\<lambda>alt.
       if \<not> truthy alt then reply_with (Error MissingTNSInformation) else
       (case h_find_spectrum hw spectrum_id of
          None \<Rightarrow> reply_with (Error (NoSpectrumWithID spectrum_id))
        | Some sp \<Rightarrow>
       hbnd (hlift (py_getitem alt ''api_key'')) (\<lambda>api_key.
       hbnd (hemit (TNSCall (ResolveName api_key))) (\<lambda>_.
       hbnd (hlift (h_resolve_name hw (obj_ident (spectrum_obj sp)) api_key)) (\<lambda>(tns_prefix, name).
       (case name of
          None \<Rightarrow> reply_with (Error TNSNameMissing)
        | Some tns_name \<Rightarrow>
       hbnd (hlift (spectype_id (data_get data ''spectrumType'' (JStr [])))) (\<lambda>stype.
       hbnd (hlift (exposure_time_of sp)) (\<lambda>exposure_time.
       hbnd (hlift (write_rows sp)) (\<lambda>_.
       hbnd (hemit (TNSCall (FileUpload api_key (instrument_name sp @ ''.'' @ spectrum_id)))) (\<lambda>_.
       hbnd (hlift (h_upload hw)) (\<lambda>r.
       if status_code r \<noteq> 200 then reply_with (Error (ResponseContent (content r))) else
       hbnd (hlift (add_redshift (bind_redshift (spectrum_obj sp))
               [(''name'', JStr tns_name),
                (''classifier'', data_get data ''classifiers'' (JStr [])),
                (''objtypeid'', data_get data ''classificationID'' JNone),
                (''groupid'', source_group_id robot),
                (''remarks'', data_get data ''classificationComment'' (JStr [])),
                (''spectra'', JDict [(''spectra-group'', JDict [(''0'',
                    JDict (spectrumdict_of sp stype (instrument_name sp @ ''.'' @ spectrum_id)
                             (data_get data ''spectrumComment'' (JStr [])) exposure_time))])])])) (\<lambda>report.
       hbnd (hemit (TNSCall (BulkReport api_key
               (JDict [(''classification_report'', JDict [(''0'', JDict report)])])))) (\<lambda>_.
       hbnd (hlift (h_report hw)) (\<lambda>r2.
       if status_code r2 = 200 then
         hbnd (hlift (body_json r2)) (\<lambda>j.
         hbnd (hlift (py_getitem j ''data'')) (\<lambda>d.
         hbnd (hlift (py_getitem d ''report_id'')) (\<lambda>tns_id.
         hret (Success (JDict [(''tns_id'', tns_id)])))))
       else hret (Error (ResponseContent (content r2))))))))))))))))))))"

subsection \<open>\<^verbatim>\<open>TNSRobotHandler.put\<close>\<close>

text \<open>
  \<^verbatim>\<open>try: ... int(x) ... except ValueError: return self.error(message)\<close>: only
  \<^verbatim>\<open>ValueError\<close> is caught, any other exception leaves the method.
\<close>

definition catch_value_error :: "exn + 'a \<Rightarrow> msg \<Rightarrow> 'a hprog" where
  "catch_value_error r m =
     (case r of
        Inl (ValueError x) \<Rightarrow> reply_with (Error m)
      | Inl e \<Rightarrow> reply_with (Uncaught e)
      | Inr v \<Rightarrow> hret v)"

definition check_bot_id :: "(string \<times> jval) list \<Rightarrow> (string \<times> jval) list hprog" where
  "check_bot_id data =
     (case map_of data ''bot_id'' of
        None \<Rightarrow> hret data
      | Some v \<Rightarrow>
          hbnd (catch_value_error (py_int v) BotIDMustBeInteger) (\<lambda>n.
            hret (AList.update ''bot_id'' (JInt n) data)))"

definition check_bot_name :: "(string \<times> jval) list \<Rightarrow> (string \<times> jval) list hprog" where
  "check_bot_name data =
     (case map_of data ''bot_name'' of
        None \<Rightarrow> hret data
      | Some v \<Rightarrow>
          if v = JNone \<or> v = JStr [] \<or> \<not> is_str v
          then reply_with (Error BotNameMustBeNonEmpty) else hret data)"

definition check_source_group_id :: "(string \<times> jval) list \<Rightarrow> (string \<times> jval) list hprog" where
  "check_source_group_id data =
     (case map_of data ''source_group_id'' of
        None \<Rightarrow> hret data
      | Some v \<Rightarrow>
          hbnd (catch_value_error (py_int v) SourceGroupIDMustBeInteger) (\<lambda>n.
            hret (AList.update ''source_group_id'' (JInt n) data)))"

text \<open>\<^verbatim>\<open>for group_id in ids: try: int(group_id) except ValueError: return self.error(...)\<close>.\<close>

fun check_group_ids :: "jval list \<Rightarrow> unit hprog" where
  "check_group_ids [] = hret ()"
| "check_group_ids (g # gs) =
     hbnd (catch_value_error (py_int g) AutoReportGroupIDsMustBeIntegers) (\<lambda>n. check_group_ids gs)"

text \<open>
  The block under \<^verbatim>\<open>if 'auto_report_group_ids' in data:\<close>: text is split at the commas
  and stored back, a value that is not a list is refused, every element is tried with
  \<^verbatim>\<open>int\<close>, and on an empty list \<^verbatim>\<open>data['auto_reporters'] = ''\<close>.
\<close>

definition split_if_text :: "jval \<Rightarrow> jval" where
  "split_if_text v =
     (case v of
        JStr s \<Rightarrow> JList (map JStr (split_on CHR '','' s))
      | JNone \<Rightarrow> v | JBool b \<Rightarrow> v | JInt n \<Rightarrow> v | JFloat x \<Rightarrow> v | JList xs \<Rightarrow> v | JDict kvs \<Rightarrow> v)"

definition check_auto_report_group_ids :: "(string \<times> jval) list \<Rightarrow> (string \<times> jval) list hprog" where
  "check_auto_report_group_ids data =
     (case map_of data ''auto_report_group_ids'' of
        None \<Rightarrow> hret data
      | Some v \<Rightarrow>
          (case split_if_text v of
             JList ids \<Rightarrow>
               hbnd (check_group_ids ids) (\<lambda>_.
                 hret (if length ids = 0
                       then AList.update ''auto_reporters'' (JStr [])
                              (AList.update ''auto_report_group_ids'' (JList ids) data)
                       else AList.update ''auto_report_group_ids'' (JList ids) data))
           | JNone \<Rightarrow> reply_with (Error AutoReportGroupIDsMustBeList)
           | JBool b \<Rightarrow> reply_with (Error AutoReportGroupIDsMustBeList)
           | JInt n \<Rightarrow> reply_with (Error AutoReportGroupIDsMustBeList)
           | JFloat x \<Rightarrow> reply_with (Error AutoReportGroupIDsMustBeList)
           | JStr s \<Rightarrow> reply_with (Error AutoReportGroupIDsMustBeList)
           | JDict kvs \<Rightarrow> reply_with (Error AutoReportGroupIDsMustBeList)))"

text \<open>
  \<^verbatim>\<open>setattr(tnsrobot, key, val)\<close>: a column name sets the column, \<^verbatim>\<open>altdata\<close> goes
  through the setter of the property, any other name sets a plain attribute.
\<close>

definition setattr_robot :: "string \<Rightarrow> jval \<Rightarrow> tnsrobot \<Rightarrow> tnsrobot" where
  "setattr_robot key val robot =
     (if key = ''id'' then robot\<lparr>robot_id := val\<rparr>
      else if key = ''group_id'' then robot\<lparr>group_id := val\<rparr>
      else if key = ''bot_name'' then robot\<lparr>bot_name := val\<rparr>
      else if key = ''bot_id'' then robot\<lparr>bot_id := val\<rparr>
      else if key = ''source_group_id'' then robot\<lparr>source_group_id := val\<rparr>
      else if key = ''_altdata'' then robot\<lparr>altdata_raw := val\<rparr>
      else if key = ''altdata'' then set_altdata val robot
      else if key = ''auto_report_group_ids'' then robot\<lparr>auto_report_group_ids := val\<rparr>
      else if key = ''auto_reporters'' then robot\<lparr>auto_reporters := val\<rparr>
      else robot\<lparr>attrs := AList.update key val (attrs robot)\<rparr>)"

text \<open>\<^verbatim>\<open>for key, val in data.items(): setattr(tnsrobot, key, val)\<close>.\<close>

fun setattr_all :: "(string \<times> jval) list \<Rightarrow> tnsrobot \<Rightarrow> tnsrobot" where
  "setattr_all [] robot = robot"
| "setattr_all ((key, val) # rest) robot = setattr_all rest (setattr_robot key val robot)"

text \<open>\<^verbatim>\<open>x in [None, '']\<close>.\<close>

definition none_or_empty :: "jval \<Rightarrow> bool" where
  "none_or_empty v = (v = JNone \<or> v = JStr [])"

text \<open>
  The method.  \<open>found\<close> is what the query for the robot returns.  The result is the
  reply, the robot as the database holds it afterwards, and the trace.  An error reply
  comes before any \<^verbatim>\<open>setattr\<close>, so it leaves the robot as it was.
\<close>

definition tnsrobot_handler_put ::
  "tnsrobot option \<Rightarrow> jval \<Rightarrow> (string \<times> jval) list \<Rightarrow> (reply \<times> tnsrobot option) \<times> event list" where
  "tnsrobot_handler_put found tnsrobot_id data0 =
     (case
        hbnd (check_bot_id data0) (\<lambda>data1.
        hbnd (check_bot_name data1) (\<lambda>data2.
        hbnd (check_source_group_id data2) (\<lambda>data3.
        hbnd (check_auto_report_group_ids data3) (\<lambda>data.
        (case found of
           None \<Rightarrow> reply_with (Error (NoTNSRobotID tnsrobot_id))
         | Some robot \<Rightarrow>
        hbnd (hlift (py_len (data_get data ''auto_report_group_ids'' (JList [])))) (\<lambda>n.
        if n > 0 \<and> none_or_empty (data_get data ''auto_reporters'' (JStr []))
             \<and> none_or_empty (auto_reporters robot)
        then reply_with (Error AutoReportersMustBeNonEmpty) else
        hbnd (hemit SessionCommit) (\<lambda>_.
        hbnd (hemit (HandlerPush ''skyportal/REFRESH_TNSROBOTS'' (group_id (setattr_all data robot)))) (\<lambda>_.
        hret (setattr_all data robot))))))))) []
      of
        (Inl r, tr) \<Rightarrow> ((r, found), tr)
      | (Inr robot', tr) \<Rightarrow> ((Success JNone, Some robot'), tr))"

section \<open>Concrete worlds\<close>

text \<open>
  A robot with credentials, an object, a user, and a world that answers every query
  with them; the script of the object endpoint is left open.  The credential text
  \<open>creds\<close> stands for a JSON text that decodes to a dict with the API key.
\<close>

definition demo_decoder :: "string \<Rightarrow> exn + jval" where
  "demo_decoder s =
     (if s = ''creds'' then Inr (JDict [(''api_key'', JStr ''k'')])
      else if s = ''nokey'' then Inr (JDict [(''bot'', JStr ''b'')])
      else Inl (ExternalError ''JSONDecodeError''))"

definition demo_robot :: tnsrobot where
  "demo_robot =
     \<lparr>robot_id = JInt 1, group_id = JInt 2, bot_name = JStr ''bot'', bot_id = JInt 7,
      source_group_id = JInt 3, altdata_raw = JStr ''creds'', auto_report_group_ids = JNone,
      auto_reporters = JStr ''A. Reporter'', attrs = []\<rparr>"

definition demo_obj :: obj where
  "demo_obj = \<lparr>obj_ident = ''ZTF1'', ra = 10, dec = 20, redshift = None, internal_key = ''key1''\<rparr>"

definition demo_user :: user where
  "demo_user = \<lparr>user_ident = 5, accessible_groups = [2]\<rparr>"

definition response_of :: "int \<Rightarrow> response" where
  "response_of code = \<lparr>status_code = code, body_json = Inr (JDict []), content = ''body''\<rparr>"

text \<open>
  Scripts of the object endpoint: \<open>always code\<close> answers every request with the status
  \<open>code\<close>; \<open>limited n code\<close> answers the requests 0 to \<open>n - 1\<close> with 429 and the later
  ones with \<open>code\<close>.
\<close>

definition always :: "int \<Rightarrow> nat \<Rightarrow> exn + response" where
  "always code k = Inr (response_of code)"

definition limited :: "nat \<Rightarrow> int \<Rightarrow> nat \<Rightarrow> exn + response" where
  "limited n code k = Inr (response_of (if k < n then 429 else code))"

definition demo_world :: "(nat \<Rightarrow> exn + response) \<Rightarrow> world" where
  "demo_world script =
     \<lparr>json_decoder = demo_decoder,
      find_user = (\<lambda>i. Some demo_user),
      find_obj = (\<lambda>i. Some demo_obj),
      find_robot = (\<lambda>i. Some demo_robot),
      get_IAUname = (\<lambda>k r d. Inr (Some ''AT'', Some ''2024abc'')),
      post_object = script,
      read_tns_photometry = (\<lambda>p. Inr (p, 1)),
      add_external_photometry = (\<lambda>oid i g d. None),
      read_tns_spectrum = (\<lambda>p. Inr p),
      post_spectrum = (\<lambda>d. None)\<rparr>"

definition demo_args :: retrieval_args where
  "demo_args =
     \<lparr>a_obj_id = ''ZTF1'', a_tnsrobot_id = 1, a_user_id = 5,
      a_include_photometry = False, a_include_spectra = False\<rparr>"

text \<open>
  A spectrum of the object above (which has no redshift), and a handler world where the
  robot is found under the id 1, the name lookup and both endpoints answer.
\<close>

definition demo_spectrum :: spectrum where
  "demo_spectrum =
     \<lparr>spectrum_obj = demo_obj, instrument_name = ''SEDM'', instrument_tns_id = JInt 149,
      spectrum_altdata = JNone, wavelengths = [4000, 5000], fluxes = [1, 2], errors = None,
      observed_at = JStr ''2024-01-01T00:00:00'', observers = JStr ''obs'',
      reducers = JStr ''red''\<rparr>"

definition report_response :: response where
  "report_response =
     \<lparr>status_code = 200,
      body_json = Inr (JDict [(''data'', JDict [(''report_id'', JInt 4242)])]),
      content = ''ok''\<rparr>"

definition demo_handler_world :: "tnsrobot \<Rightarrow> spectrum \<Rightarrow> handler_world" where
  "demo_handler_world robot sp =
     \<lparr>h_json_decoder = demo_decoder,
      h_find_robot = (\<lambda>i. if i = JInt 1 then Some robot else None),
      h_find_obj = (\<lambda>i. Some demo_obj),
      h_find_spectrum = (\<lambda>i. Some sp),
      h_user_id = 5,
      h_start_date = (\<lambda>d. Inr ''2024-01-01T00:00:00.000''),
      h_resolve_name = (\<lambda>i k. Inr (Some ''AT'', Some ''2024abc'')),
      h_upload = Inr (response_of 200),
      h_report = Inr report_response\<rparr>"

text \<open>
  A bulk world: the search finds two sources, neither known locally; every inner
  retrieval is answered 200 at once; the outcome of \<^verbatim>\<open>post_source\<close> per source is left
  open.
\<close>

definition post_succeeds :: "nat \<Rightarrow> exn option" where
  "post_succeeds k = None"

definition post_fails_second :: "nat \<Rightarrow> exn option" where
  "post_fails_second k = (if k = 1 then Some (ExternalError ''post_source'') else None)"

definition demo_bulk_world :: "(nat \<Rightarrow> exn option) \<Rightarrow> bulk_world" where
  "demo_bulk_world post_outcome =
     \<lparr>b_json_decoder = demo_decoder,
      b_find_user = (\<lambda>i. Some demo_user),
      b_find_robot = (\<lambda>i. Some demo_robot),
      get_recent_TNS = (\<lambda>k d. Inr [\<lparr>source_id = ''2024abc'', source_fields = []\<rparr>,
                                    \<lparr>source_id = ''2024abd'', source_fields = []\<rparr>]),
      local_obj = (\<lambda>k i. None),
      post_source = (\<lambda>k src g. post_outcome k),
      retrieval_world = (\<lambda>k. demo_world (always 200))\<rparr>"

definition demo_bulk_args :: bulk_args where
  "demo_bulk_args =
     \<lparr>b_start_date = ''2024-01-01'', b_tnsrobot_id = 1, b_user_id = 5, b_group_ids = None,
      b_include_photometry = False, b_include_spectra = False\<rparr>"

section \<open>Observations on a trace\<close>





text \<open>
  Counting with weights: \<open>weight f tr\<close> adds up \<open>f\<close> over a trace, and a program
  \<open>preserves f\<close> when no run of it changes the weight of the trace.  A weight is
  \<open>inert\<close> when it ignores the events a retrieval makes before its commit: log lines,
  sleeps, requests to TNS and photometry insertions.
\<close>

definition weight :: "(event \<Rightarrow> int) \<Rightarrow> event list \<Rightarrow> int" where
  "weight f tr = sum_list (map f tr)"

definition preserves :: "(event \<Rightarrow> int) \<Rightarrow> 'a prog \<Rightarrow> bool" where
  "preserves f m = (\<forall>s. weight f (trace (snd (m s))) = weight f (trace s))"

definition inert :: "(event \<Rightarrow> int) \<Rightarrow> bool" where
  "inert f =
     ((\<forall>m. f (Log m) = 0) \<and> (\<forall>n. f (Sleep n) = 0) \<and> (\<forall>r. f (TNSCall r) = 0)
      \<and> (\<forall>oid i g d. f (PhotometryAdded oid i g d) = 0))"


definition closing :: "event \<Rightarrow> int" where
  "closing e = (if e = SessionClose then 1 else 0)"

text \<open>Counting the sleeps and the requests to the object endpoint on a trace.\<close>

definition sleeps :: "event list \<Rightarrow> nat" where
  "sleeps tr = length (filter (\<lambda>e. e = Sleep 30) tr)"

fun is_object_fetch :: "event \<Rightarrow> bool" where
  "is_object_fetch (TNSCall (ObjectFetch k n p s)) = True"
| "is_object_fetch (TNSCall (ResolveName k)) = False"
| "is_object_fetch (TNSCall (SearchRecent k d)) = False"
| "is_object_fetch (TNSCall (FileUpload k f)) = False"
| "is_object_fetch (TNSCall (BulkReport k r)) = False"
| "is_object_fetch (Log m) = False"
| "is_object_fetch (Sleep n) = False"
| "is_object_fetch SessionCommit = False"
| "is_object_fetch SessionClose = False"
| "is_object_fetch SessionRemove = False"
| "is_object_fetch (FlowPush a k) = False"
| "is_object_fetch (HandlerPush a v) = False"
| "is_object_fetch (PhotometryAdded oid i g d) = False"
| "is_object_fetch (RunInExecutor t) = False"

definition fetches :: "event list \<Rightarrow> nat" where
  "fetches tr = length (filter is_object_fetch tr)"

text \<open>
  A value of \<open>groupIds\<close> that is neither a list nor a text whose pieces between the
  commas all convert with \<^verbatim>\<open>int\<close>.
\<close>

definition malformed_group_ids :: "jval \<Rightarrow> bool" where
  "malformed_group_ids g =
     (case g of
        JList xs \<Rightarrow> False
      | JStr s \<Rightarrow> (case int_each (split_on CHR '','' s) of Inl e \<Rightarrow> True | Inr ns \<Rightarrow> False)
      | JNone \<Rightarrow> True | JBool b \<Rightarrow> True | JInt n \<Rightarrow> True | JFloat x \<Rightarrow> True
      | JDict kvs \<Rightarrow> True)"

section \<open>Properties\<close>

lemmas prog_defs =
  ret_def raise_def lift_def bnd_def emit_def log_line_def add_change_def record_event_def
  commit_session_def close_session_def remove_session_def

lemmas hprog_defs =
  hret_def reply_with_def hbnd_def hlift_def hemit_def run_handler_def

lemmas demo_defs =
  demo_world_def demo_args_def demo_robot_def demo_obj_def demo_user_def demo_decoder_def
  response_of_def demo_handler_world_def demo_spectrum_def report_response_def
  always_def limited_def post_succeeds_def post_fails_second_def
  demo_bulk_world_def demo_bulk_args_def

lemmas retrieval_defs =
  tns_retrieval_def tns_retrieval_try_def fetch_object_def process_reply_def altdata_def
  count_limit_def new_session_def group_ids_of_def retry_loop.simps

lemmas bulk_defs =
  tns_bulk_retrieval_def tns_bulk_retrieval_try_def default_group_ids_def post_if_missing_def
  inner_args_def

subsection \<open>Session lifecycle of the retrieval functions\<close>

text \<open>
  Claim C1.  The claim: a \<^verbatim>\<open>tns_retrieval\<close> that owns its session closes and releases
  it on exit, and a shared session handed in by the batch caller is not closed by the
  inner call.  The \<^verbatim>\<open>finally\<close> block of the code tests
  \<^verbatim>\<open>if parent_session is not None\<close>, the opposite condition.  Evaluated on a world where
  everything succeeds: the call that owns its session (no parent session) ends without
  \<open>SessionClose\<close> and \<open>SessionRemove\<close>, and the call that was handed a shared session
  closes and removes it.
\<close>

theorem tns_retrieval_closes_only_shared_session:
  "trace (tns_retrieval (demo_world (always 200)) demo_args None []) =
     [TNSCall (ResolveName (JStr ''k'')),
      TNSCall (ObjectFetch (JStr ''k'') ''2024abc'' False False),
      Log (SuccessfullyRetrieved ''ZTF1'' ''2024abc''), SessionCommit,
      FlowPush ''skyportal/REFRESH_SOURCE'' ''key1'']
   \<and> trace (tns_retrieval (demo_world (always 200)) demo_args (Some new_session) []) =
     [TNSCall (ResolveName (JStr ''k'')),
      TNSCall (ObjectFetch (JStr ''k'') ''2024abc'' False False),
      Log (SuccessfullyRetrieved ''ZTF1'' ''2024abc''), SessionCommit,
      FlowPush ''skyportal/REFRESH_SOURCE'' ''key1'', SessionClose, SessionRemove]"
  by (simp add: retrieval_defs prog_defs demo_defs)

subsection \<open>The rate-limit retry loop\<close>

text \<open>
  Claim C3.  The claim: a retry whose response is not 429 leaves the retry loop and is
  processed as a normal outcome, and only five retries that all return 429 end in the
  rate-exceeded error.  The code raises on \<^verbatim>\<open>count == count_limit\<close> without looking at
  the last response.  Evaluated on a script where the first request and the first four
  retries return 429 and the fifth retry returns 200: six requests and five sleeps of 30
  seconds, then the run ends in the rate-exceeded error, with no commit and no
  notification, although the last response was 200.
\<close>

theorem tns_retrieval_fifth_retry_200_rate_exceeded:
  "trace (tns_retrieval (demo_world (limited 5 200))
            demo_args None []) =
     [TNSCall (ResolveName (JStr ''k'')),
      TNSCall (ObjectFetch (JStr ''k'') ''2024abc'' False False),
      Log (RateLimited (JDict [])), Sleep 30,
      TNSCall (ObjectFetch (JStr ''k'') ''2024abc'' False False),
      Log (RateLimited (JDict [])), Sleep 30,
      TNSCall (ObjectFetch (JStr ''k'') ''2024abc'' False False),
      Log (RateLimited (JDict [])), Sleep 30,
      TNSCall (ObjectFetch (JStr ''k'') ''2024abc'' False False),
      Log (RateLimited (JDict [])), Sleep 30,
      TNSCall (ObjectFetch (JStr ''k'') ''2024abc'' False False),
      Log (RateLimited (JDict [])), Sleep 30,
      TNSCall (ObjectFetch (JStr ''k'') ''2024abc'' False False),
      Log (UnableToRetrieve ''ZTF1'' (ValueError RateExceeded))]"
  by (simp add: retrieval_defs prog_defs demo_defs)

subsection \<open>Credentials without an API key\<close>

text \<open>
  Claim C4.  The claim: for a robot whose credential mapping has no \<open>api_key\<close> entry,
  every retrieval and push operation, the synchronous spectrum push included, fails with
  the missing-API-key condition before any network call.  \<^verbatim>\<open>SpectrumTNSHandler.post\<close>
  tests only \<^verbatim>\<open>if not altdata\<close>; its sibling handlers also test
  \<^verbatim>\<open>'api_key' not in altdata\<close>.  Evaluated on a robot whose credentials decode to the
  non-empty mapping \<open>{bot: b}\<close>: the three launching handlers reply with the error
  \<open>Missing TNS API key.\<close>, the spectrum handler ends with the uncaught
  \<^verbatim>\<open>KeyError('api_key')\<close> of \<^verbatim>\<open>altdata['api_key']\<close>.  No handler reaches a network call.
\<close>

theorem spectrum_post_without_api_key_raises_key_error:
  "spectrum_tns_handler_post
     (demo_handler_world (demo_robot\<lparr>altdata_raw := JStr ''nokey''\<rparr>) demo_spectrum) ''12''
     [(''tnsrobotID'', JInt 1), (''spectrumType'', JStr ''object'')]
   = (Uncaught (KeyError ''api_key''), [])
   \<and> bulk_tns_handler_post
     (demo_handler_world (demo_robot\<lparr>altdata_raw := JStr ''nokey''\<rparr>) demo_spectrum)
     [(''groupIds'', JList [JInt 2]), (''tnsrobotID'', JInt 1)]
   = (Error MissingTNSAPIKey, [])
   \<and> obj_tns_handler_get
     (demo_handler_world (demo_robot\<lparr>altdata_raw := JStr ''nokey''\<rparr>) demo_spectrum) ''ZTF1''
     [(''tnsrobotID'', JInt 1)]
   = (Error MissingTNSAPIKey, [])
   \<and> obj_tns_handler_post
     (demo_handler_world (demo_robot\<lparr>altdata_raw := JStr ''nokey''\<rparr>) demo_spectrum) ''ZTF1''
     [(''tnsrobotID'', JInt 1), (''reporters'', JStr ''A. Reporter'')]
   = (Error MissingTNSAPIKey, [])"
  by (simp add: spectrum_tns_handler_post_def bulk_tns_handler_post_def obj_tns_handler_get_def
      obj_tns_handler_post_def read_group_ids_def check_credentials_def data_get_def altdata_def
      hprog_defs demo_defs)

subsection \<open>The spectrum classification push\<close>

text \<open>
  Claim C5.  The claim: for a spectrum whose object has no redshift, the report is built
  without a redshift field and the submission goes on through the file upload and the
  bulk report.  The code assigns the local \<^verbatim>\<open>redshift\<close> only under
  \<^verbatim>\<open>if spectrum.obj.redshift:\<close> and reads it in \<^verbatim>\<open>if redshift is not None:\<close>.
  Evaluated on an object without redshift, a valid spectrum type and an upload answered
  200: the file is uploaded, then the method ends with the uncaught
  \<^verbatim>\<open>UnboundLocalError\<close>; no bulk report is sent and no report id is returned.
\<close>

theorem spectrum_post_without_redshift_raises:
  "spectrum_tns_handler_post (demo_handler_world demo_robot demo_spectrum) ''12''
     [(''tnsrobotID'', JInt 1), (''spectrumType'', JStr ''object'')]
   = (Uncaught (UnboundLocalError ''redshift''),
      [TNSCall (ResolveName (JStr ''k'')), TNSCall (FileUpload (JStr ''k'') ''SEDM.12'')])"
  by (simp add: spectrum_tns_handler_post_def data_get_def altdata_def spectype_id_def
      spectrum_types_def exposure_time_of_def write_rows_def bind_redshift_def add_redshift_def
      hprog_defs demo_defs)

subsection \<open>Malformed \<open>groupIds\<close>\<close>

text \<open>
  Claim C8.  The claim: for every malformed \<open>groupIds\<close>, a text with a non-numeric
  element included, the bulk-retrieval handler returns a validation error and launches no
  task.  \<^verbatim>\<open>BulkTNSHandler.post\<close> converts the pieces with \<^verbatim>\<open>int\<close> outside any
  \<^verbatim>\<open>try\<close>, where the other handlers of the module catch \<^verbatim>\<open>ValueError\<close> and return
  \<^verbatim>\<open>self.error\<close>.  Evaluated on \<open>groupIds = "1,a"\<close>: the method ends with the uncaught
  \<^verbatim>\<open>ValueError\<close> of \<^verbatim>\<open>int('a')\<close>, not with an error reply; no task is launched.  A value
  that is neither text nor list gets the error reply.
\<close>

theorem bulk_post_non_numeric_group_ids_uncaught:
  "bulk_tns_handler_post (demo_handler_world demo_robot demo_spectrum)
     [(''groupIds'', JStr ''1,a''), (''tnsrobotID'', JInt 1)]
   = (Uncaught (ValueError (InvalidLiteralForInt ''a'')), [])
   \<and> bulk_tns_handler_post (demo_handler_world demo_robot demo_spectrum)
     [(''groupIds'', JInt 3), (''tnsrobotID'', JInt 1)]
   = (Error GroupIdsTypeNotUnderstood, [])"
  by (simp add: bulk_tns_handler_post_def read_group_ids_def data_get_def py_int_str_def
      parse_int_def parse_nat_def strip_def is_space_def is_digit_def digit_val_def
      hprog_defs demo_defs)

subsection \<open>The credential accessor\<close>



subsection \<open>What a retrieval appends to the trace\<close>

text \<open>
  The programs that make up \<^verbatim>\<open>tns_retrieval\<close> only append to the trace, and all they
  append before the commit has weight 0 under an inert weight.
\<close>

lemma weight_append: "weight f (xs @ ys) = weight f xs + weight f ys"
  by (simp add: weight_def)

lemma weight_Nil: "weight f [] = 0"
  by (simp add: weight_def)

lemma weight_Cons: "weight f (x # xs) = f x + weight f xs"
  by (simp add: weight_def)

lemma preserves_ret: "preserves f (ret x)"
  by (simp add: preserves_def ret_def)

lemma preserves_raise: "preserves f (raise e)"
  by (simp add: preserves_def raise_def)

lemma preserves_lift: "preserves f (lift r)"
  by (simp add: preserves_def lift_def)

lemma preserves_add_change: "preserves f (add_change c)"
  by (simp add: preserves_def add_change_def)

lemma preserves_emit: "f e = 0 \<Longrightarrow> preserves f (emit e)"
  by (simp add: preserves_def emit_def record_event_def weight_append weight_Cons weight_Nil)

lemma preserves_log: "inert f \<Longrightarrow> preserves f (log_line m)"
  by (simp add: log_line_def inert_def preserves_emit)

lemma preserves_bnd:
  assumes "preserves f m" and "\<And>x. preserves f (k x)"
  shows "preserves f (bnd m k)"
proof -
  have "weight f (trace (snd (bnd m k s))) = weight f (trace s)" for s
  proof (cases "m s")
    case (Pair r s')
    have m: "weight f (trace s') = weight f (trace s)"
      using assms(1) Pair by (auto simp: preserves_def dest: spec [of _ s])
    show ?thesis
    proof (cases r)
      case (Inl e)
      with Pair m show ?thesis by (simp add: bnd_def)
    next
      case (Inr x)
      have "weight f (trace (snd (k x s'))) = weight f (trace s')"
        using assms(2) [of x] by (simp add: preserves_def)
      with Pair Inr m show ?thesis by (simp add: bnd_def)
    qed
  qed
  then show ?thesis by (simp add: preserves_def)
qed

lemma weight_record_event: "weight f (trace (record_event e s)) = weight f (trace s) + f e"
  by (simp add: record_event_def weight_append weight_Cons weight_Nil)

lemma retry_loop_weight:
  "inert f \<Longrightarrow> weight f (trace (snd (retry_loop w req count r s))) = weight f (trace s)"
proof (induction w req count r s rule: retry_loop.induct)
  case (1 w req count r s)
  show ?case
  proof (cases "status_code r = 429 \<and> count < count_limit")
    case False
    then show ?thesis by (subst retry_loop.simps) auto
  next
    case True
    show ?thesis
    proof (cases "body_json r")
      case (Inl e)
      with True show ?thesis by (subst retry_loop.simps) simp
    next
      case (Inr j)
      show ?thesis
      proof (cases "post_object w (Suc count)")
        case (Inl e)
        with True Inr 1(2) show ?thesis
          by (subst retry_loop.simps) (simp add: weight_record_event inert_def)
      next
        case (Inr r')
        with True \<open>body_json r = Inr j\<close> 1 show ?thesis
          by (subst retry_loop.simps) (simp add: weight_record_event inert_def)
      qed
    qed
  qed
qed

lemma preserves_retry_loop: "inert f \<Longrightarrow> preserves f (retry_loop w req count r)"
  unfolding preserves_def by (intro allI retry_loop_weight)

lemma photometry_loop_weight:
  "inert f \<Longrightarrow> weight f (trace (snd (photometry_loop w oid gids phots failed s))) = weight f (trace s)"
proof (induction phots arbitrary: failed s)
  case Nil
  then show ?case by simp
next
  case (Cons phot rest)
  then show ?case
    by (auto simp: weight_record_event inert_def split: sum.splits option.splits prod.splits)
qed

lemma spectra_loop_weight:
  "inert f \<Longrightarrow> weight f (trace (snd (spectra_loop w oid gids specs s))) = weight f (trace s)"
proof (induction specs arbitrary: s)
  case Nil
  then show ?case by simp
next
  case (Cons sp rest)
  then show ?case
    by (auto simp: weight_record_event inert_def split: sum.splits option.splits)
qed

lemma preserves_spectra_loop: "inert f \<Longrightarrow> preserves f (spectra_loop w oid gids specs)"
  by (simp add: preserves_def spectra_loop_weight)

lemma preserves_if: "(c \<Longrightarrow> preserves f m) \<Longrightarrow> (\<not> c \<Longrightarrow> preserves f n) \<Longrightarrow> preserves f (if c then m else n)"
  by simp

lemma photometry_loop_weight_dest:
  "photometry_loop w oid gids phots failed s = (fl, s') \<Longrightarrow> inert f \<Longrightarrow>
     weight f (trace s') = weight f (trace s)"
  using photometry_loop_weight [of f w oid gids phots failed s] by simp

lemma preserves_photometry_part: "inert f \<Longrightarrow> preserves f (photometry_part w oid gids sd)"
proof -
  assume f: "inert f"
  have "preserves f (\<lambda>s. case photometry_loop w oid gids phots [] s of
          (failed, s') \<Rightarrow>
            (if length failed > 0
             then log_line (FailedPhotometry (length failed) (length phots) (snd ` set failed)) s'
             else ret () s'))" for phots
    using f
    by (auto simp: preserves_def log_line_def emit_def ret_def weight_record_event inert_def
          split: prod.splits dest!: photometry_loop_weight_dest [where f = f])
  with f show ?thesis
    unfolding photometry_part_def
    by (intro preserves_bnd preserves_lift)
qed

lemma preserves_spectra_part: "inert f \<Longrightarrow> preserves f (spectra_part w oid usr sd)"
  unfolding spectra_part_def
  by (intro preserves_bnd preserves_lift preserves_spectra_loop)

lemma preserves_process_reply: "inert f \<Longrightarrow> preserves f (process_reply w a usr name r)"
  unfolding process_reply_def
  by (intro preserves_bnd preserves_lift preserves_if preserves_add_change preserves_ret
        preserves_log preserves_photometry_part preserves_spectra_part)

lemma preserves_fetch_object: "inert f \<Longrightarrow> preserves f (fetch_object w req)"
  unfolding fetch_object_def
  apply (intro preserves_bnd preserves_lift preserves_retry_loop preserves_emit)
  apply (simp add: inert_def)
  apply assumption
  apply (auto simp: preserves_raise preserves_ret)
  done

lemma preserves_case_option:
  "preserves f a \<Longrightarrow> (\<And>y. preserves f (b y)) \<Longrightarrow> preserves f (case x of None \<Rightarrow> a | Some y \<Rightarrow> b y)"
  by (cases x) auto

lemma preserves_case_prod:
  "(\<And>a b. preserves f (g a b)) \<Longrightarrow> preserves f (case p of (a, b) \<Rightarrow> g a b)"
  by (cases p) auto

lemma preserves_commit_push:
  "f SessionCommit + f e = 0 \<Longrightarrow> preserves f (bnd (\<lambda>s. (Inr (), commit_session s)) (\<lambda>_. emit e))"
  by (simp add: preserves_def bnd_def emit_def commit_session_def record_event_def weight_append
        weight_Cons weight_Nil)

lemma preserves_tns_retrieval_try:
  assumes "inert f"
    and "\<And>key. f SessionCommit + f (FlowPush ''skyportal/REFRESH_SOURCE'' key) = 0"
  shows "preserves f (tns_retrieval_try w a usr)"
  unfolding tns_retrieval_try_def
  by (intro preserves_commit_push preserves_case_option preserves_case_prod preserves_bnd
        preserves_if preserves_raise preserves_lift preserves_add_change
        preserves_fetch_object preserves_process_reply preserves_log preserves_emit assms)
     (use assms in \<open>simp_all add: inert_def\<close>)

lemma try_and_except_weight:
  assumes "inert f"
    and "\<And>key. f SessionCommit + f (FlowPush ''skyportal/REFRESH_SOURCE'' key) = 0"
  shows "weight f (trace (case tns_retrieval_try w a usr start of
             (Inl e, s) \<Rightarrow> record_event (Log (UnableToRetrieve (a_obj_id a) e)) s
           | (Inr u, s) \<Rightarrow> s)) = weight f (trace start)"
proof -
  obtain r s where run: "tns_retrieval_try w a usr start = (r, s)"
    by (cases "tns_retrieval_try w a usr start") auto
  have "weight f (trace s) = weight f (trace start)"
    using preserves_tns_retrieval_try [OF assms, of w a usr] run
    by (auto simp: preserves_def dest: spec [of _ start])
  with run assms(1) show ?thesis
    by (cases r) (simp_all add: weight_record_event inert_def)
qed

lemma tns_retrieval_weight:
  assumes "inert f"
    and "\<And>key. f SessionCommit + f (FlowPush ''skyportal/REFRESH_SOURCE'' key) = 0"
  shows "weight f (trace (tns_retrieval w a parent tr)) =
           weight f tr + (if parent \<noteq> None then f SessionClose + f SessionRemove else 0)"
proof (cases parent)
  case None
  then show ?thesis
    using try_and_except_weight [OF assms, where w = w and a = a and usr = "find_user w (a_user_id a)"
          and start = "\<lparr>trace = tr, sess = new_session\<rparr>"]
    by (simp add: tns_retrieval_def)
next
  case (Some p)
  then show ?thesis
    using try_and_except_weight [OF assms, where w = w and a = a and usr = "find_user w (a_user_id a)"
          and start = "\<lparr>trace = tr, sess = p\<rparr>"]
    by (simp add: tns_retrieval_def weight_record_event remove_session_def close_session_def Let_def)
qed




subsection \<open>Commits of a bulk run\<close>









subsection \<open>The refresh notification\<close>




subsection \<open>The spectrum type\<close>





subsection \<open>The update of a robot\<close>

lemma split_on_not_Nil: "split_on c s \<noteq> []"
  by (induction s) (auto split: list.splits)

lemma auto_reporters_setattr:
  "key \<noteq> ''auto_reporters'' \<Longrightarrow> auto_reporters (setattr_robot key val robot) = auto_reporters robot"
  by (simp add: setattr_robot_def set_altdata_def)

lemma auto_reporters_setattr_self:
  "auto_reporters (setattr_robot ''auto_reporters'' val robot) = val"
  by (simp add: setattr_robot_def)

lemma auto_reporters_setattr_all:
  "distinct (map fst data) \<Longrightarrow>
     auto_reporters (setattr_all data robot) =
       (case map_of data ''auto_reporters'' of None \<Rightarrow> auto_reporters robot | Some v \<Rightarrow> v)"
proof (induction data arbitrary: robot)
  case Nil
  show ?case by simp
next
  case (Cons kv rest)
  obtain key val where kv: "kv = (key, val)" by (cases kv)
  from Cons.prems kv have d: "distinct (map fst rest)" and nk: "key \<notin> fst ` set rest"
    by auto
  show ?case
  proof (cases "key = ''auto_reporters''")
    case True
    with nk have "map_of rest ''auto_reporters'' = None"
      by (simp add: map_of_eq_None_iff)
    with True kv Cons.IH [OF d] show ?thesis
      by (simp add: auto_reporters_setattr_self)
  next
    case False
    with kv Cons.IH [OF d] show ?thesis
      by (simp add: auto_reporters_setattr split: option.splits)
  qed
qed

lemma check_bot_id_keeps:
  "check_bot_id data tr = (Inr d', tr') \<Longrightarrow>
     (distinct (map fst data) \<longrightarrow> distinct (map fst d'))
     \<and> (\<forall>k. k \<noteq> ''bot_id'' \<longrightarrow> map_of d' k = map_of data k)"
  by (auto simp: check_bot_id_def catch_value_error_def hprog_defs update_conv' distinct_update
        split: option.splits sum.splits exn.splits)

lemma check_bot_name_keeps:
  "check_bot_name data tr = (Inr d', tr') \<Longrightarrow> d' = data"
  by (auto simp: check_bot_name_def hprog_defs split: option.splits if_splits)

lemma check_source_group_id_keeps:
  "check_source_group_id data tr = (Inr d', tr') \<Longrightarrow>
     (distinct (map fst data) \<longrightarrow> distinct (map fst d'))
     \<and> (\<forall>k. k \<noteq> ''source_group_id'' \<longrightarrow> map_of d' k = map_of data k)"
  by (auto simp: check_source_group_id_def catch_value_error_def hprog_defs update_conv' distinct_update
        split: option.splits sum.splits exn.splits)

lemma check_group_ids_result:
  "check_group_ids ids tr = (Inr u, tr') \<Longrightarrow> tr' = tr"
  by (induction ids arbitrary: tr)
     (auto simp: catch_value_error_def hprog_defs split: sum.splits exn.splits prod.splits)

lemma check_auto_report_group_ids_keeps:
  assumes "check_auto_report_group_ids data tr = (Inr d', tr')"
  shows "(distinct (map fst data) \<longrightarrow> distinct (map fst d'))
     \<and> map_of d' ''auto_reporters'' =
         (if map_of data ''auto_report_group_ids'' = Some (JList []) then Some (JStr [])
          else map_of data ''auto_reporters'')"
  using assms split_on_not_Nil
  by (auto simp: check_auto_report_group_ids_def split_if_text_def hprog_defs update_conv'
        distinct_update
        split: option.splits sum.splits jval.splits prod.splits if_splits)

lemma catch_value_error_no_success:
  "catch_value_error r m tr \<noteq> (Inl (Success v), tr')"
  by (auto simp: catch_value_error_def hprog_defs split: sum.splits exn.splits)

lemma check_bot_id_no_success: "check_bot_id data tr \<noteq> (Inl (Success v), tr')"
  by (auto simp: check_bot_id_def hbnd_def hret_def catch_value_error_no_success
        split: option.splits sum.splits prod.splits)

lemma check_bot_name_no_success: "check_bot_name data tr \<noteq> (Inl (Success v), tr')"
  by (auto simp: check_bot_name_def hprog_defs split: option.splits)

lemma check_source_group_id_no_success: "check_source_group_id data tr \<noteq> (Inl (Success v), tr')"
  by (auto simp: check_source_group_id_def hbnd_def hret_def catch_value_error_no_success
        split: option.splits sum.splits prod.splits)

lemma check_group_ids_no_success: "check_group_ids ids tr \<noteq> (Inl (Success v), tr')"
proof (induction ids arbitrary: tr)
  case Nil
  show ?case by (simp add: hret_def)
next
  case (Cons g gs)
  show ?case
    using Cons.IH
    by (auto simp: hbnd_def catch_value_error_no_success split: sum.splits prod.splits)
qed

lemma check_auto_report_group_ids_no_success:
  "check_auto_report_group_ids data tr \<noteq> (Inl (Success v), tr')"
  by (auto simp: check_auto_report_group_ids_def hbnd_def hret_def reply_with_def
        check_group_ids_no_success
        split: option.splits sum.splits prod.splits jval.splits)

text \<open>
  Claim C10.  For an update that \<^verbatim>\<open>TNSRobotHandler.put\<close> applies (the request body is a
  dict, so its keys are distinct, and the reply is success): when the request gives
  \<open>auto_report_group_ids\<close> as the empty list, the robot's \<open>auto_reporters\<close> becomes the
  empty string, whether or not the request gave \<open>auto_reporters\<close>; in every other
  update \<open>auto_reporters\<close> is the value the request gave and is unchanged when the
  request gave none.
\<close>

theorem put_auto_reporters:
  assumes "distinct (map fst data)"
    and "tnsrobot_handler_put (Some robot) tnsrobot_id data = ((Success v, Some robot'), tr)"
  shows "(map_of data ''auto_report_group_ids'' = Some (JList []) \<longrightarrow>
            auto_reporters robot' = JStr [])
       \<and> (map_of data ''auto_report_group_ids'' \<noteq> Some (JList []) \<longrightarrow>
            auto_reporters robot' =
              (case map_of data ''auto_reporters'' of None \<Rightarrow> auto_reporters robot | Some x \<Rightarrow> x))"
proof -
  from assms(2) obtain d1 d2 d3 d4 t1 t2 t3 t4 where
    c1: "check_bot_id data [] = (Inr d1, t1)" and
    c2: "check_bot_name d1 t1 = (Inr d2, t2)" and
    c3: "check_source_group_id d2 t2 = (Inr d3, t3)" and
    c4: "check_auto_report_group_ids d3 t3 = (Inr d4, t4)" and
    r: "robot' = setattr_all d4 robot"
    by (auto simp: tnsrobot_handler_put_def hprog_defs
          check_bot_id_no_success check_bot_name_no_success check_source_group_id_no_success
          check_auto_report_group_ids_no_success
          split: sum.splits prod.splits if_splits)
  from check_bot_id_keeps [OF c1] assms(1)
  have k1: "distinct (map fst d1)" "map_of d1 ''auto_reporters'' = map_of data ''auto_reporters''"
    "map_of d1 ''auto_report_group_ids'' = map_of data ''auto_report_group_ids''"
    by auto
  from check_bot_name_keeps [OF c2] have k2: "d2 = d1" .
  from check_source_group_id_keeps [OF c3] k1 k2
  have k3: "distinct (map fst d3)" "map_of d3 ''auto_reporters'' = map_of data ''auto_reporters''"
    "map_of d3 ''auto_report_group_ids'' = map_of data ''auto_report_group_ids''"
    by auto
  from check_auto_report_group_ids_keeps [OF c4] k3
  have k4: "distinct (map fst d4)"
    "map_of d4 ''auto_reporters'' =
       (if map_of data ''auto_report_group_ids'' = Some (JList []) then Some (JStr [])
        else map_of data ''auto_reporters'')"
    by auto
  from auto_reporters_setattr_all [OF k4(1), of robot] r k4(2) show ?thesis
    by (auto split: option.splits)
qed

text \<open>
  Witness for C10: an update with the empty list and no \<open>auto_reporters\<close> empties the
  reporters of a robot that had some; an update of the bot name alone leaves them.
\<close>

theorem put_auto_reporters_witness:
  "tnsrobot_handler_put (Some demo_robot) (JInt 1) [(''auto_report_group_ids'', JList [])]
     = ((Success JNone,
         Some (demo_robot\<lparr>auto_report_group_ids := JList [], auto_reporters := JStr []\<rparr>)),
        [SessionCommit, HandlerPush ''skyportal/REFRESH_TNSROBOTS'' (JInt 2)])
   \<and> auto_reporters (demo_robot\<lparr>auto_report_group_ids := JList [], auto_reporters := JStr []\<rparr>)
       = JStr []
   \<and> tnsrobot_handler_put (Some demo_robot) (JInt 1) [(''bot_name'', JStr ''bot2'')]
     = ((Success JNone, Some (demo_robot\<lparr>bot_name := JStr ''bot2''\<rparr>)),
        [SessionCommit, HandlerPush ''skyportal/REFRESH_TNSROBOTS'' (JInt 2)])
   \<and> auto_reporters (demo_robot\<lparr>bot_name := JStr ''bot2''\<rparr>) = auto_reporters demo_robot"
proof -
  have e1: "tnsrobot_handler_put (Some demo_robot) (JInt 1) [(''auto_report_group_ids'', JList [])]
     = ((Success JNone,
         Some (demo_robot\<lparr>auto_report_group_ids := JList [], auto_reporters := JStr []\<rparr>)),
        [SessionCommit, HandlerPush ''skyportal/REFRESH_TNSROBOTS'' (JInt 2)])"
    by (simp add: tnsrobot_handler_put_def check_bot_id_def check_bot_name_def
          check_source_group_id_def check_auto_report_group_ids_def split_if_text_def
          data_get_def none_or_empty_def setattr_robot_def hprog_defs demo_defs)
  have e2: "tnsrobot_handler_put (Some demo_robot) (JInt 1) [(''bot_name'', JStr ''bot2'')]
     = ((Success JNone, Some (demo_robot\<lparr>bot_name := JStr ''bot2''\<rparr>)),
        [SessionCommit, HandlerPush ''skyportal/REFRESH_TNSROBOTS'' (JInt 2)])"
    by (simp add: tnsrobot_handler_put_def check_bot_id_def check_bot_name_def
          check_source_group_id_def check_auto_report_group_ids_def split_if_text_def
          data_get_def none_or_empty_def setattr_robot_def hprog_defs demo_defs)
  have d1: "distinct (map fst [(''auto_report_group_ids'', JList [])])" by simp
  have d2: "distinct (map fst [(''bot_name'', JStr ''bot2'')])" by simp
  from put_auto_reporters [OF d1 e1] put_auto_reporters [OF d2 e2] e1 e2 show ?thesis
    by simp
qed

subsection \<open>Further properties of the retry loop, the sessions and the handlers\<close>

lemma weight_closing_inert: "inert closing"
  by (simp add: inert_def closing_def)

text \<open>
  On every world: a \<^verbatim>\<open>tns_retrieval\<close> without parent session adds no \<open>SessionClose\<close>
  to the trace, and one that is handed a parent session adds exactly one.
\<close>

theorem tns_retrieval_close_count:
  "weight closing (trace (tns_retrieval w a None tr)) = weight closing tr
   \<and> weight closing (trace (tns_retrieval w a (Some p) tr)) = weight closing tr + 1"
  using tns_retrieval_weight [OF weight_closing_inert, of w a None tr]
    tns_retrieval_weight [OF weight_closing_inert, of w a "Some p" tr]
  by (simp add: closing_def)

text \<open>
  When the first request and five retries are all answered 429, the fetch ends in the
  rate-exceeded error after exactly five sleeps of 30 seconds and six requests: there is
  no sixth retry.
\<close>

theorem fetch_all_429_rate_exceeded:
  assumes "\<And>k. k \<le> 5 \<Longrightarrow> \<exists>r j. post_object w k = Inr r \<and> status_code r = 429 \<and> body_json r = Inr j"
  shows "fst (fetch_object w (ObjectFetch key name p sp) s) = Inl (ValueError RateExceeded)
       \<and> sleeps (trace (snd (fetch_object w (ObjectFetch key name p sp) s))) = sleeps (trace s) + 5
       \<and> fetches (trace (snd (fetch_object w (ObjectFetch key name p sp) s))) = fetches (trace s) + 6"
proof -
  from assms [of 0] obtain r0 j0 where
    r0: "post_object w 0 = Inr r0" "status_code r0 = 429" "body_json r0 = Inr j0" by auto
  from assms [of 1] obtain r1 j1 where
    r1: "post_object w (Suc 0) = Inr r1" "status_code r1 = 429" "body_json r1 = Inr j1" by auto
  from assms [of 2] obtain r2 j2 where
    r2: "post_object w (Suc (Suc 0)) = Inr r2" "status_code r2 = 429" "body_json r2 = Inr j2"
    by (auto simp: numeral_2_eq_2)
  from assms [of 3] obtain r3 j3 where
    r3: "post_object w (Suc (Suc (Suc 0))) = Inr r3" "status_code r3 = 429" "body_json r3 = Inr j3"
    by (auto simp: numeral_3_eq_3)
  from assms [of 4] obtain r4 j4 where
    r4: "post_object w (Suc (Suc (Suc (Suc 0)))) = Inr r4" "status_code r4 = 429" "body_json r4 = Inr j4"
    by (auto simp: eval_nat_numeral)
  from assms [of 5] obtain r5 where
    r5: "post_object w (Suc (Suc (Suc (Suc (Suc 0))))) = Inr r5" "status_code r5 = 429"
    by (auto simp: eval_nat_numeral)
  show ?thesis
    using r0 r1 r2 r3 r4 r5
    by (simp add: fetch_object_def retry_loop.simps count_limit_def prog_defs sleeps_def
          fetches_def)
qed

text \<open>Witness: the endpoint that always answers 429.\<close>

theorem fetch_all_429_rate_exceeded_witness:
  "fst (fetch_object (demo_world (always 429))
          (ObjectFetch (JStr ''k'') ''2024abc'' False False) \<lparr>trace = [], sess = new_session\<rparr>)
     = Inl (ValueError RateExceeded)
   \<and> sleeps (trace (snd (fetch_object (demo_world (always 429))
          (ObjectFetch (JStr ''k'') ''2024abc'' False False) \<lparr>trace = [], sess = new_session\<rparr>))) = 5
   \<and> fetches (trace (snd (fetch_object (demo_world (always 429))
          (ObjectFetch (JStr ''k'') ''2024abc'' False False) \<lparr>trace = [], sess = new_session\<rparr>))) = 6"
  using fetch_all_429_rate_exceeded [of "demo_world (always 429)"
      "JStr ''k''" "''2024abc''" False False "\<lparr>trace = [], sess = new_session\<rparr>"]
  by (simp add: demo_defs sleeps_def fetches_def)

lemma retry_loop_exits:
  assumes "k < count_limit" and "post_object w k = Inr r" and "status_code r \<noteq> 429"
    and "\<forall>i. i < k \<longrightarrow> (\<exists>ri j. post_object w i = Inr ri \<and> status_code ri = 429 \<and> body_json ri = Inr j)"
  shows "c \<le> k \<Longrightarrow> post_object w c = Inr rc \<Longrightarrow> fst (retry_loop w req c rc s) = Inr (r, k)"
proof (induction "k - c" arbitrary: c rc s)
  case 0
  with assms(2,3) show ?case by (subst retry_loop.simps) simp
next
  case (Suc n)
  then have lt: "c < k" by simp
  with assms(4) Suc.prems(2) obtain j where rc: "status_code rc = 429" "body_json rc = Inr j"
    by auto
  have "\<exists>r'. post_object w (Suc c) = Inr r'"
  proof (cases "Suc c = k")
    case True
    with assms(2) show ?thesis by simp
  next
    case False
    with lt have "Suc c < k" by simp
    with assms(4) show ?thesis by blast
  qed
  then obtain r' where r': "post_object w (Suc c) = Inr r'" by blast
  have "fst (retry_loop w req (Suc c) r' s') = Inr (r, k)" for s'
    using Suc.hyps(1) [of "Suc c" r' s'] Suc.hyps(2) lt r' by simp
  with rc r' lt assms(1) show ?case by (subst retry_loop.simps) simp
qed

text \<open>
  When the requests before the \<open>k\<close>-th are answered 429 and the \<open>k\<close>-th, with
  \<open>k < 5\<close> (the first request or one of the first four retries), is answered otherwise,
  the loop ends there and that response is the result of the fetch.
\<close>

theorem fetch_retry_not_429_is_result:
  assumes "k < 5" and "post_object w k = Inr r" and "status_code r \<noteq> 429"
    and "\<forall>i. i < k \<longrightarrow> (\<exists>ri j. post_object w i = Inr ri \<and> status_code ri = 429 \<and> body_json ri = Inr j)"
  shows "fst (fetch_object w req s) = Inr r"
proof -
  have k: "k < count_limit" using assms(1) by (simp add: count_limit_def)
  obtain r0 where r0: "post_object w 0 = Inr r0"
  proof (cases "k = 0")
    case True
    with assms(2) that show ?thesis by simp
  next
    case False
    with assms(4) that show ?thesis by blast
  qed
  let ?s1 = "record_event (TNSCall req) s"
  have "fst (retry_loop w req 0 r0 ?s1) = Inr (r, k)"
    by (rule retry_loop_exits [OF k assms(2,3,4) _ r0]) simp
  then obtain s2 where "retry_loop w req 0 r0 ?s1 = (Inr (r, k), s2)"
    by (cases "retry_loop w req 0 r0 ?s1") auto
  with r0 k show ?thesis
    by (simp add: fetch_object_def bnd_def emit_def lift_def raise_def ret_def)
qed

text \<open>Witness: four answers 429, then 200 on the fourth retry.\<close>

theorem fetch_retry_not_429_is_result_witness:
  "fst (fetch_object (demo_world (limited 4 200))
          (ObjectFetch (JStr ''k'') ''2024abc'' False False) \<lparr>trace = [], sess = new_session\<rparr>)
     = Inr (response_of 200)"
  using fetch_retry_not_429_is_result [of 4
      "demo_world (limited 4 200)" "response_of 200"
      "ObjectFetch (JStr ''k'') ''2024abc'' False False" "\<lparr>trace = [], sess = new_session\<rparr>"]
  by (simp add: demo_defs)

lemma check_credentials_without_api_key:
  assumes "altdata (h_json_decoder hw) robot = Inr (JDict m)" and "map_of m ''api_key'' = None"
  shows "check_credentials hw robot tr =
           (Inl (Error (if m = [] then MissingTNSInformation else MissingTNSAPIKey)), tr)"
  using assms by (simp add: check_credentials_def hprog_defs)

text \<open>
  For a robot whose credentials decode to a mapping without \<open>api_key\<close>, none of the four
  handlers makes a network call or launches a task, and none replies success.
\<close>

theorem handlers_without_api_key_make_no_call:
  assumes "\<And>i r. h_find_robot hw i = Some r \<Longrightarrow> r = robot"
    and "altdata (h_json_decoder hw) robot = Inr (JDict m)"
    and "map_of m ''api_key'' = None"
  shows "snd (bulk_tns_handler_post hw data) = [] \<and> (\<forall>v. fst (bulk_tns_handler_post hw data) \<noteq> Success v)
       \<and> snd (obj_tns_handler_get hw oid query) = [] \<and> (\<forall>v. fst (obj_tns_handler_get hw oid query) \<noteq> Success v)
       \<and> snd (obj_tns_handler_post hw oid data) = [] \<and> (\<forall>v. fst (obj_tns_handler_post hw oid data) \<noteq> Success v)
       \<and> snd (spectrum_tns_handler_post hw sid data) = []
       \<and> (\<forall>v. fst (spectrum_tns_handler_post hw sid data) \<noteq> Success v)"
proof -
  note cred = check_credentials_without_api_key [OF assms(2,3)]
  have b: "snd (bulk_tns_handler_post hw data) = [] \<and> (\<forall>v. fst (bulk_tns_handler_post hw data) \<noteq> Success v)"
    using assms(1) cred
    by (auto simp: bulk_tns_handler_post_def read_group_ids_def hprog_defs
          split: jval.splits option.splits sum.splits prod.splits if_splits)
  have g: "snd (obj_tns_handler_get hw oid query) = [] \<and> (\<forall>v. fst (obj_tns_handler_get hw oid query) \<noteq> Success v)"
    using assms(1) cred
    by (auto simp: obj_tns_handler_get_def hprog_defs
          split: jval.splits option.splits sum.splits prod.splits if_splits)
  have p: "snd (obj_tns_handler_post hw oid data) = [] \<and> (\<forall>v. fst (obj_tns_handler_post hw oid data) \<noteq> Success v)"
    using assms(1) cred
    by (auto simp: obj_tns_handler_post_def hprog_defs
          split: jval.splits option.splits sum.splits prod.splits if_splits)
  have s: "snd (spectrum_tns_handler_post hw sid data) = [] \<and> (\<forall>v. fst (spectrum_tns_handler_post hw sid data) \<noteq> Success v)"
    using assms
    by (auto simp: spectrum_tns_handler_post_def hprog_defs
          split: jval.splits option.splits sum.splits prod.splits if_splits)
  from b g p s show ?thesis by blast
qed

text \<open>
  For every malformed \<open>groupIds\<close> the bulk-retrieval handler launches no task and does
  not reply success.
\<close>

theorem bulk_post_malformed_launches_nothing:
  assumes "malformed_group_ids (data_get data ''groupIds'' JNone)"
  shows "snd (bulk_tns_handler_post hw data) = [] \<and> (\<forall>v. fst (bulk_tns_handler_post hw data) \<noteq> Success v)"
  using assms
  by (auto simp: bulk_tns_handler_post_def read_group_ids_def malformed_group_ids_def hprog_defs
        split: jval.splits sum.splits)

text \<open>
  \<^verbatim>\<open>tns_bulk_retrieval\<close> ends with close and remove of its session whenever it returns
  normally; when the statements before its \<^verbatim>\<open>try\<close> raise, it leaves without closing.
\<close>

theorem bulk_retrieval_closes_session:
  "(fst (tns_bulk_retrieval bw a tr) = None \<longrightarrow>
      (\<exists>pre. trace (snd (tns_bulk_retrieval bw a tr)) = pre @ [SessionClose, SessionRemove]))
   \<and> (fst (tns_bulk_retrieval bw a tr) \<noteq> None \<longrightarrow> trace (snd (tns_bulk_retrieval bw a tr)) = tr)"
  by (auto simp: tns_bulk_retrieval_def remove_session_def close_session_def record_event_def
        split: sum.splits prod.splits)

text \<open>Witness: the robot whose credentials are \<open>{bot: b}\<close>.\<close>

theorem handlers_without_api_key_make_no_call_witness:
  "snd (spectrum_tns_handler_post
          (demo_handler_world (demo_robot\<lparr>altdata_raw := JStr ''nokey''\<rparr>) demo_spectrum) ''12''
          [(''tnsrobotID'', JInt 1)]) = []
   \<and> snd (bulk_tns_handler_post
          (demo_handler_world (demo_robot\<lparr>altdata_raw := JStr ''nokey''\<rparr>) demo_spectrum)
          [(''tnsrobotID'', JInt 1)]) = []"
proof -
  have a: "altdata (h_json_decoder
             (demo_handler_world (demo_robot\<lparr>altdata_raw := JStr ''nokey''\<rparr>) demo_spectrum))
             (demo_robot\<lparr>altdata_raw := JStr ''nokey''\<rparr>) = Inr (JDict [(''bot'', JStr ''b'')])"
    by (simp add: altdata_def demo_defs)
  have f: "h_find_robot
             (demo_handler_world (demo_robot\<lparr>altdata_raw := JStr ''nokey''\<rparr>) demo_spectrum) i
           = Some r \<Longrightarrow> r = demo_robot\<lparr>altdata_raw := JStr ''nokey''\<rparr>" for i r
    by (simp add: demo_handler_world_def split: if_splits)
  show ?thesis
    using handlers_without_api_key_make_no_call
      [OF f a, where data = "[(''tnsrobotID'', JInt 1)]" and sid = "''12''"]
    by simp
qed

text \<open>Witness: the text \<open>1,a\<close>.\<close>

theorem bulk_post_malformed_launches_nothing_witness:
  "malformed_group_ids (data_get [(''groupIds'', JStr ''1,a''), (''tnsrobotID'', JInt 1)] ''groupIds'' JNone)
   \<and> snd (bulk_tns_handler_post (demo_handler_world demo_robot demo_spectrum)
          [(''groupIds'', JStr ''1,a''), (''tnsrobotID'', JInt 1)]) = []"
proof -
  have m: "malformed_group_ids
      (data_get [(''groupIds'', JStr ''1,a''), (''tnsrobotID'', JInt 1)] ''groupIds'' JNone)"
    by (simp add: malformed_group_ids_def data_get_def py_int_str_def parse_int_def parse_nat_def
          strip_def is_space_def is_digit_def digit_val_def)
  from bulk_post_malformed_launches_nothing [OF m] m show ?thesis
    by simp
qed

text \<open>Witness: the run over two sources returns normally and ends with close and remove.\<close>

theorem bulk_retrieval_closes_session_witness:
  "fst (tns_bulk_retrieval (demo_bulk_world post_succeeds) demo_bulk_args []) = None
   \<and> (\<exists>pre. trace (snd (tns_bulk_retrieval (demo_bulk_world post_succeeds) demo_bulk_args []))
         = pre @ [SessionClose, SessionRemove])"
proof -
  have n: "fst (tns_bulk_retrieval (demo_bulk_world post_succeeds) demo_bulk_args []) = None"
    by (simp add: bulk_defs retrieval_defs prog_defs demo_defs)
  from bulk_retrieval_closes_session [of "demo_bulk_world post_succeeds" demo_bulk_args "[]"] n
  show ?thesis by blast
qed

end
